theory Spec2Isabelle
  imports Complex_Main "HOL-Library.Char_ord" "HOL-Library.List_Lexorder"
begin

section \<open>Data of the test: dates, contract, market quotes\<close>

text \<open>
  The development follows \<^verbatim>\<open>test-suite/dividendeuropeanoption.cpp\<close>, the Greeks
  test of the dividend European option. \<^verbatim>\<open>Real\<close>, \<^verbatim>\<open>Rate\<close>, \<^verbatim>\<open>Spread\<close>, \<^verbatim>\<open>Time\<close> and
  \<^verbatim>\<open>Volatility\<close> are read as mathematical reals; the four perturbations are also
  given over an arbitrary arithmetic, where rounding matters for what is claimed. A
  \<^verbatim>\<open>Date\<close> is its serial day number, so \<^verbatim>\<open>today+1\<close> and \<^verbatim>\<open>today-1\<close> are integer
  arithmetic and \<^verbatim>\<open>Date()\<close>, the null date, is serial number 0.
\<close>

type_synonym date = int

definition nullDate :: date where
  "nullDate = 0"

datatype option_type = Call | Put

text \<open>
  The \<^verbatim>\<open>DividendVanillaOption\<close> as the test builds it: a plain vanilla payoff
  (type and strike), a European exercise (its last date) and the two dividend vectors.
\<close>

record contract =
  optionType :: option_type
  strike :: real
  lastDate :: date
  dividendDates :: "date list"
  dividends :: "real list"

text \<open>
  What every pricing call reads: the three \<^verbatim>\<open>SimpleQuote\<close>s behind the flat curves,
  the spot quote, and the evaluation date of \<^verbatim>\<open>Settings::instance()\<close>.
\<close>

record market =
  spot :: real
  qRate :: real
  rRate :: real
  vol :: real
  evaluationDate :: date

datatype quantity = QNPV | QDelta | QGamma | QTheta | QRho | QVega

text \<open>
  A \<^verbatim>\<open>std::map<std::string,Real>\<close>: its entries in increasing key order, which is
  the order in which an iterator from \<^verbatim>\<open>begin()\<close> to \<^verbatim>\<open>end()\<close> visits them.
\<close>

type_synonym greek_map = "(string \<times> real) list"

text \<open>\<^verbatim>\<open>m[k] = v\<close>: overwrite the entry of \<open>k\<close>, or insert it at its place.\<close>

fun map_assign :: "string \<Rightarrow> real \<Rightarrow> greek_map \<Rightarrow> greek_map" where
  "map_assign k v [] = [(k, v)]"
| "map_assign k v ((k', v') # m) =
     (if k = k' then (k, v) # m
      else if k < k' then (k, v) # (k', v') # m
      else (k', v') # map_assign k v m)"

text \<open>
  Reading \<^verbatim>\<open>m[k]\<close>: the stored value; for a missing key \<^verbatim>\<open>operator[]\<close> yields a
  value-initialised \<^verbatim>\<open>Real\<close>, that is 0.
\<close>

definition map_at :: "greek_map \<Rightarrow> string \<Rightarrow> real" where
  "map_at m k = (case map_of m k of Some v \<Rightarrow> v | None \<Rightarrow> 0)"

text \<open>
  The state the test works on: the market quotes, the two maps \<^verbatim>\<open>calculated\<close> and
  \<^verbatim>\<open>expected\<close> declared before the loops, and the history of requests made to the
  option (which result was asked for, of which contract, under which market). The
  history is not a variable of the test; it records the calls \<^verbatim>\<open>option.NPV()\<close>,
  \<^verbatim>\<open>option.delta()\<close>, ... in the order they are made.
\<close>

record test_state = market +
  calculated :: greek_map
  expected :: greek_map
  requests :: "(quantity \<times> contract \<times> market) list"

definition tolerance :: greek_map where
  "tolerance =
     map_assign ''vega'' (1 / 100000)
       (map_assign ''rho'' (1 / 100000)
         (map_assign ''theta'' (1 / 100000)
           (map_assign ''gamma'' (1 / 100000)
             (map_assign ''delta'' (1 / 100000) []))))"

section \<open>External collaborators\<close>

text \<open>
  The analytic engine behind the option is not part of the test file: each result is
  a function of the market and the contract, and a call either returns a number or
  raises a QuantLib error with a message.
\<close>

record engine =
  NPV :: "market \<Rightarrow> contract \<Rightarrow> string + real"
  delta :: "market \<Rightarrow> contract \<Rightarrow> string + real"
  gamma :: "market \<Rightarrow> contract \<Rightarrow> string + real"
  theta :: "market \<Rightarrow> contract \<Rightarrow> string + real"
  rho :: "market \<Rightarrow> contract \<Rightarrow> string + real"
  vega :: "market \<Rightarrow> contract \<Rightarrow> string + real"

text \<open>
  Calendar and settings: today's date, \<^verbatim>\<open>Settings::instance().dayCounterBase()\<close>,
  \<^verbatim>\<open>date + n*Months\<close>, and the year fraction of the settings' day counter.
\<close>

record env =
  todaysDate :: date
  dayCounterBase :: int
  plusMonths :: "date \<Rightarrow> int \<Rightarrow> date"
  yearFraction :: "date \<Rightarrow> date \<Rightarrow> real"

text \<open>
  Modelled from the spec: \<^verbatim>\<open>relativeError\<close> of the test suite's utilities is not
  in the test file. Section 4.3 defines it as \<open>|expected - calculated| / scale\<close>,
  with the absolute difference as fallback for a zero scale.
\<close>

definition relativeError :: "real \<Rightarrow> real \<Rightarrow> real \<Rightarrow> real" where
  "relativeError x1 x2 reference =
     (if reference \<noteq> 0 then \<bar>x1 - x2\<bar> / reference else \<bar>x1 - x2\<bar>)"

section \<open>Control: returning, throwing, not returning\<close>

text \<open>
  The fields of the message that \<^verbatim>\<open>REPORT_FAILURE\<close> assembles, before formatting.
\<close>

datatype exercise_type = European
datatype payoff_type = PlainVanilla

record failure =
  f_exercise :: exercise_type
  f_optionType :: option_type
  f_payoff :: payoff_type
  f_spot :: real
  f_strike :: real
  f_dividendYield :: real
  f_riskFreeRate :: real
  f_referenceDate :: date
  f_maturity :: date
  f_volatility :: real
  f_greekName :: string
  f_expected :: real
  f_calculated :: real
  f_error :: real
  f_tolerance :: real

datatype exn = QLError string | BoostFail failure

datatype 'a outcome = Returns 'a | Throws exn

text \<open>
  A statement of the test maps a state to an outcome and the state it leaves behind;
  \<open>None\<close> stands for a statement that never finishes.
\<close>

type_synonym ('s, 'a) run = "'s \<Rightarrow> ('a outcome \<times> 's) option"

type_synonym 'a prog = "(test_state, 'a) run"

definition ret :: "'a \<Rightarrow> ('s, 'a) run" where
  "ret x = (\<lambda>s. Some (Returns x, s))"

definition throw :: "exn \<Rightarrow> ('s, 'a) run" where
  "throw e = (\<lambda>s. Some (Throws e, s))"

text \<open>Sequencing: an exception skips everything that follows.\<close>

definition then_do :: "('s, 'a) run \<Rightarrow> ('a \<Rightarrow> ('s, 'b) run) \<Rightarrow> ('s, 'b) run" where
  "then_do m f = (\<lambda>s.
     case m s of
       None \<Rightarrow> None
     | Some (Returns x, s') \<Rightarrow> f x s'
     | Some (Throws e, s') \<Rightarrow> Some (Throws e, s'))"

text \<open>A \<^verbatim>\<open>for\<close> loop over an array.\<close>

fun for_each :: "'a list \<Rightarrow> ('a \<Rightarrow> ('s, unit) run) \<Rightarrow> ('s, unit) run" where
  "for_each [] body = ret ()"
| "for_each (x # xs) body = then_do (body x) (\<lambda>_. for_each xs body)"

text \<open>
  \<^verbatim>\<open>BOOST_FAIL\<close> is Boost.Test's fatal-level report: it logs the message and throws,
  which ends the running test case (the non-fatal report is \<^verbatim>\<open>BOOST_ERROR\<close>).
\<close>

definition BOOST_FAIL :: "failure \<Rightarrow> unit prog" where
  "BOOST_FAIL msg = throw (BoostFail msg)"

definition REPORT_FAILURE ::
  "string \<Rightarrow> contract \<Rightarrow> real \<Rightarrow> real \<Rightarrow> real \<Rightarrow> date \<Rightarrow> real \<Rightarrow> real \<Rightarrow> real \<Rightarrow> real \<Rightarrow> real
     \<Rightarrow> unit prog" where
  "REPORT_FAILURE greekName c s q r today v expct calcl err tol =
     BOOST_FAIL \<lparr> f_exercise = European, f_optionType = optionType c,
       f_payoff = PlainVanilla, f_spot = s, f_strike = strike c,
       f_dividendYield = q, f_riskFreeRate = r, f_referenceDate = today,
       f_maturity = lastDate c, f_volatility = v, f_greekName = greekName,
       f_expected = expct, f_calculated = calcl, f_error = err, f_tolerance = tol \<rparr>"

section \<open>Quotes, settings and pricing calls\<close>

definition spot_setValue :: "real \<Rightarrow> unit prog" where
  "spot_setValue x = (\<lambda>s. Some (Returns (), s\<lparr>spot := x\<rparr>))"

definition qRate_setValue :: "real \<Rightarrow> unit prog" where
  "qRate_setValue x = (\<lambda>s. Some (Returns (), s\<lparr>qRate := x\<rparr>))"

definition rRate_setValue :: "real \<Rightarrow> unit prog" where
  "rRate_setValue x = (\<lambda>s. Some (Returns (), s\<lparr>rRate := x\<rparr>))"

definition vol_setValue :: "real \<Rightarrow> unit prog" where
  "vol_setValue x = (\<lambda>s. Some (Returns (), s\<lparr>vol := x\<rparr>))"

definition setEvaluationDate :: "date \<Rightarrow> unit prog" where
  "setEvaluationDate d = (\<lambda>s. Some (Returns (), s\<lparr>evaluationDate := d\<rparr>))"

definition spot_value :: "real prog" where
  "spot_value = (\<lambda>s. Some (Returns (spot s), s))"

text \<open>
  Line 75, \<^verbatim>\<open>std::map<std::string,Real> calculated, expected, tolerance;\<close>: the maps
  start empty (\<open>tolerance\<close>, filled once in lines 76--80, is the constant above).
\<close>

definition declare_maps :: "unit prog" where
  "declare_maps = (\<lambda>s. Some (Returns (), s\<lparr>calculated := [], expected := []\<rparr>))"

definition set_calculated :: "string \<Rightarrow> real \<Rightarrow> unit prog" where
  "set_calculated k x = (\<lambda>s. Some (Returns (), s\<lparr>calculated := map_assign k x (calculated s)\<rparr>))"

definition set_expected :: "string \<Rightarrow> real \<Rightarrow> unit prog" where
  "set_expected k x = (\<lambda>s. Some (Returns (), s\<lparr>expected := map_assign k x (expected s)\<rparr>))"

text \<open>
  A pricing call reads the market as it stands, is entered in the history, and returns
  the engine's number or throws the engine's error.
\<close>

definition ask :: "(market \<Rightarrow> contract \<Rightarrow> string + real) \<Rightarrow> quantity \<Rightarrow> contract \<Rightarrow> real prog" where
  "ask f qn c = (\<lambda>s.
     Some (case f (market.truncate s) c of
             Inl msg \<Rightarrow> Throws (QLError msg)
           | Inr x \<Rightarrow> Returns x,
           s\<lparr>requests := requests s @ [(qn, c, market.truncate s)]\<rparr>))"

definition option_NPV :: "engine \<Rightarrow> contract \<Rightarrow> real prog" where
  "option_NPV eng c = ask (NPV eng) QNPV c"

definition option_delta :: "engine \<Rightarrow> contract \<Rightarrow> real prog" where
  "option_delta eng c = ask (delta eng) QDelta c"

definition option_gamma :: "engine \<Rightarrow> contract \<Rightarrow> real prog" where
  "option_gamma eng c = ask (gamma eng) QGamma c"

definition option_theta :: "engine \<Rightarrow> contract \<Rightarrow> real prog" where
  "option_theta eng c = ask (theta eng) QTheta c"

definition option_rho :: "engine \<Rightarrow> contract \<Rightarrow> real prog" where
  "option_rho eng c = ask (rho eng) QRho c"

definition option_vega :: "engine \<Rightarrow> contract \<Rightarrow> real prog" where
  "option_vega eng c = ask (vega eng) QVega c"

section \<open>The test\<close>

subsection \<open>The four perturbations\<close>

text \<open>Lines 151--161: perturb spot and get delta and gamma.\<close>

definition perturb_spot :: "engine \<Rightarrow> contract \<Rightarrow> real \<Rightarrow> unit prog" where
  "perturb_spot eng c u =
     (let du = u * (1 / 10000) in
      then_do (spot_setValue (u + du)) (\<lambda>_.
      then_do (option_NPV eng c) (\<lambda>value_p.
      then_do (option_delta eng c) (\<lambda>delta_p.
      then_do (spot_setValue (u - du)) (\<lambda>_.
      then_do (option_NPV eng c) (\<lambda>value_m.
      then_do (option_delta eng c) (\<lambda>delta_m.
      then_do (spot_setValue u) (\<lambda>_.
      then_do (set_expected ''delta'' ((value_p - value_m) / (2 * du))) (\<lambda>_.
      set_expected ''gamma'' ((delta_p - delta_m) / (2 * du)))))))))))"

text \<open>Lines 163--170: perturb risk-free rate and get rho.\<close>

definition perturb_rate :: "engine \<Rightarrow> contract \<Rightarrow> real \<Rightarrow> unit prog" where
  "perturb_rate eng c r =
     (let dr = r * (1 / 10000) in
      then_do (rRate_setValue (r + dr)) (\<lambda>_.
      then_do (option_NPV eng c) (\<lambda>value_p.
      then_do (rRate_setValue (r - dr)) (\<lambda>_.
      then_do (option_NPV eng c) (\<lambda>value_m.
      then_do (rRate_setValue r) (\<lambda>_.
      set_expected ''rho'' ((value_p - value_m) / (2 * dr))))))))"

text \<open>Lines 172--179: perturb volatility and get vega.\<close>

definition perturb_vol :: "engine \<Rightarrow> contract \<Rightarrow> real \<Rightarrow> unit prog" where
  "perturb_vol eng c v =
     (let dv = v * (1 / 10000) in
      then_do (vol_setValue (v + dv)) (\<lambda>_.
      then_do (option_NPV eng c) (\<lambda>value_p.
      then_do (vol_setValue (v - dv)) (\<lambda>_.
      then_do (option_NPV eng c) (\<lambda>value_m.
      then_do (vol_setValue v) (\<lambda>_.
      set_expected ''vega'' ((value_p - value_m) / (2 * dv))))))))"

text \<open>Lines 181--188: perturb date and get theta.\<close>

definition perturb_date :: "env \<Rightarrow> engine \<Rightarrow> contract \<Rightarrow> date \<Rightarrow> unit prog" where
  "perturb_date ev eng c today =
     (let dT = yearFraction ev (today - 1) (today + 1) in
      then_do (setEvaluationDate (today - 1)) (\<lambda>_.
      then_do (option_NPV eng c) (\<lambda>value_m.
      then_do (setEvaluationDate (today + 1)) (\<lambda>_.
      then_do (option_NPV eng c) (\<lambda>value_p.
      then_do (setEvaluationDate today) (\<lambda>_.
      set_expected ''theta'' ((value_p - value_m) / dT)))))))"

subsection \<open>The comparison\<close>

text \<open>Lines 194--203, the body of the loop over the entries of \<^verbatim>\<open>calculated\<close>.\<close>

definition check_greek ::
  "contract \<Rightarrow> real \<Rightarrow> real \<Rightarrow> real \<Rightarrow> date \<Rightarrow> real \<Rightarrow> string \<Rightarrow> unit prog" where
  "check_greek c u q r today v greek = (\<lambda>s.
     let expct = map_at (expected s) greek;
         calcl = map_at (calculated s) greek;
         tol = map_at tolerance greek;
         err = relativeError expct calcl u
     in (if err > tol
         then REPORT_FAILURE greek c u q r today v expct calcl err tol
         else ret ()) s)"

text \<open>Lines 191--204: the iterator runs over the keys of \<^verbatim>\<open>calculated\<close> in order.\<close>

definition compare :: "contract \<Rightarrow> real \<Rightarrow> real \<Rightarrow> real \<Rightarrow> date \<Rightarrow> real \<Rightarrow> unit prog" where
  "compare c u q r today v = (\<lambda>s.
     for_each (map fst (calculated s)) (check_greek c u q r today v) s)"

subsection \<open>One grid point\<close>

text \<open>Lines 134--205, the body of the innermost loop.\<close>

definition grid_point ::
  "env \<Rightarrow> engine \<Rightarrow> contract \<Rightarrow> date \<Rightarrow> real \<Rightarrow> real \<Rightarrow> real \<Rightarrow> real \<Rightarrow> unit prog" where
  "grid_point ev eng c today u q r v =
     then_do (spot_setValue u) (\<lambda>_.
     then_do (qRate_setValue q) (\<lambda>_.
     then_do (rRate_setValue r) (\<lambda>_.
     then_do (vol_setValue v) (\<lambda>_.
     then_do (option_NPV eng c) (\<lambda>value.
     then_do (then_do (option_delta eng c) (set_calculated ''delta'')) (\<lambda>_.
     then_do (then_do (option_gamma eng c) (set_calculated ''gamma'')) (\<lambda>_.
     then_do (then_do (option_theta eng c) (set_calculated ''theta'')) (\<lambda>_.
     then_do (then_do (option_rho eng c) (set_calculated ''rho'')) (\<lambda>_.
     then_do (then_do (option_vega eng c) (set_calculated ''vega'')) (\<lambda>_.
     then_do spot_value (\<lambda>spot_now.
     if value > spot_now * (1 / 100000) then
       then_do (perturb_spot eng c u) (\<lambda>_.
       then_do (perturb_rate eng c r) (\<lambda>_.
       then_do (perturb_vol eng c v) (\<lambda>_.
       then_do (perturb_date ev eng c today) (\<lambda>_.
       compare c u q r today v))))
     else ret ())))))))))))"

subsection \<open>The dividend schedule\<close>

text \<open>
  Lines 109--116: \<^verbatim>\<open>for (Date d = today + 3*Months; d < exercise->lastDate(); d += 6*Months)\<close>,
  started by \<open>dividend_schedule\<close> below. The loop ends only if the dates it steps
  through reach the last date, so it is a partial function.
\<close>

partial_function (option) dividend_loop ::
  "env \<Rightarrow> date \<Rightarrow> date \<Rightarrow> date list \<Rightarrow> real list \<Rightarrow> (date list \<times> real list) option" where
  "dividend_loop ev d exDate dates divs =
     (if d < exDate
      then dividend_loop ev (plusMonths ev d 6) exDate (dates @ [d]) (divs @ [5])
      else Some (dates, divs))"

definition dividend_schedule :: "env \<Rightarrow> date \<Rightarrow> date \<Rightarrow> (date list \<times> real list) option" where
  "dividend_schedule ev today exDate = dividend_loop ev (plusMonths ev today 3) exDate [] []"

subsection \<open>The sweep\<close>

definition types :: "option_type list" where
  "types = [Call, Put]"

definition strikes :: "real list" where
  "strikes = [50, 99.5, 100, 100.5, 150]"

definition underlyings :: "real list" where
  "underlyings = [100]"

definition qRates :: "real list" where
  "qRates = [0, 0.10, 0.30]"

definition rRates :: "real list" where
  "rRates = [0.01, 0.05, 0.15]"

definition lengths :: "int list" where
  "lengths = [1, 2]"

definition vols :: "real list" where
  "vols = [0.05, 0.20, 0.70]"

text \<open>Lines 105--209, the body of the loop over \<^verbatim>\<open>lengths\<close>.\<close>

definition option_loop ::
  "env \<Rightarrow> engine \<Rightarrow> date \<Rightarrow> option_type \<Rightarrow> real \<Rightarrow> int \<Rightarrow> unit prog" where
  "option_loop ev eng today ty k len = (\<lambda>s.
     let exDate = today + len * dayCounterBase ev in
     case dividend_schedule ev today exDate of
       None \<Rightarrow> None
     | Some (dates, divs) \<Rightarrow>
         let c = \<lparr> optionType = ty, strike = k, lastDate = exDate,
                   dividendDates = dates, dividends = divs \<rparr>
         in for_each underlyings (\<lambda>u.
              for_each qRates (\<lambda>q.
                for_each rRates (\<lambda>r.
                  for_each vols (\<lambda>v.
                    grid_point ev eng c today u q r v)))) s)"

text \<open>Lines 75--212: what stands between \<^verbatim>\<open>QL_TEST_BEGIN\<close> and \<^verbatim>\<open>QL_TEST_TEARDOWN\<close>.\<close>

definition testGreeks_body :: "env \<Rightarrow> engine \<Rightarrow> unit prog" where
  "testGreeks_body ev eng =
     then_do declare_maps (\<lambda>_.
     let today = todaysDate ev in
     then_do (setEvaluationDate today) (\<lambda>_.
     then_do (spot_setValue 0) (\<lambda>_.
     then_do (qRate_setValue 0) (\<lambda>_.
     then_do (rRate_setValue 0) (\<lambda>_.
     then_do (vol_setValue 0) (\<lambda>_.
     for_each types (\<lambda>ty.
       for_each strikes (\<lambda>k.
         for_each lengths (\<lambda>len.
           option_loop ev eng today ty k len)))))))))"

text \<open>
  The same sweep as one enumeration, used to speak of the grid points before and after a
  given one: the state in which the loops start, the grid points in the order in which
  the seven nested loops reach them, and what the loops do at one grid point (the
  contract is the one that the loop over \<^verbatim>\<open>lengths\<close> has built for it). That the nested
  loops are this enumeration is \<open>sweep_enumeration\<close> below.
\<close>

definition start :: "env \<Rightarrow> test_state \<Rightarrow> test_state" where
  "start ev s = s\<lparr>calculated := [], expected := [], evaluationDate := todaysDate ev,
     spot := 0, qRate := 0, rRate := 0, vol := 0\<rparr>"

definition grid_points ::
  "(option_type \<times> real \<times> int \<times> real \<times> real \<times> real \<times> real) list" where
  "grid_points =
     List.product types (List.product strikes (List.product lengths
       (List.product underlyings (List.product qRates (List.product rRates vols)))))"

definition the_contract ::
  "env \<Rightarrow> option_type \<Rightarrow> real \<Rightarrow> int \<Rightarrow> date list \<Rightarrow> real list \<Rightarrow> contract" where
  "the_contract ev ty k len dates divs =
     \<lparr> optionType = ty, strike = k,
       lastDate = todaysDate ev + len * dayCounterBase ev,
       dividendDates = dates, dividends = divs \<rparr>"

definition visit ::
  "env \<Rightarrow> engine \<Rightarrow> option_type \<times> real \<times> int \<times> real \<times> real \<times> real \<times> real \<Rightarrow> unit prog" where
  "visit ev eng = (\<lambda>(ty, k, len, u, q, r, v) s.
     case dividend_schedule ev (todaysDate ev) (todaysDate ev + len * dayCounterBase ev) of
       None \<Rightarrow> None
     | Some (dates, divs) \<Rightarrow>
         grid_point ev eng (the_contract ev ty k len dates divs) (todaysDate ev) u q r v s)"

text \<open>The keys of \<^verbatim>\<open>calculated\<close> once the five Greeks are stored, in iteration order.\<close>

definition greeks :: "string list" where
  "greeks = [''delta'', ''gamma'', ''rho'', ''theta'', ''vega'']"

text \<open>
  Lines 63--65. The macros \<^verbatim>\<open>QL_TEST_BEGIN\<close> and \<^verbatim>\<open>QL_TEST_TEARDOWN\<close> that surround
  the body and call the teardown belong to the test suite's utilities header, outside
  the test file.
\<close>

definition teardown :: "unit prog" where
  "teardown = setEvaluationDate nullDate"

section \<open>The perturbations over an arbitrary arithmetic\<close>

text \<open>
  Lines 151--188 once more, with the numbers of type \<^verbatim>\<open>Real\<close> taken from any type \<open>'n\<close>
  and the operations and literals the lines use passed as parameters. Nothing is assumed
  of the operations: addition need not undo subtraction, so IEEE double arithmetic with
  its rounding is one instance and exact arithmetic on the reals another. The state is
  the market and the map \<^verbatim>\<open>expected\<close>; the engine is any function of market and contract.
\<close>

record 'n arith =
  ar_plus :: "'n \<Rightarrow> 'n \<Rightarrow> 'n"
  ar_minus :: "'n \<Rightarrow> 'n \<Rightarrow> 'n"
  ar_times :: "'n \<Rightarrow> 'n \<Rightarrow> 'n"
  ar_divide :: "'n \<Rightarrow> 'n \<Rightarrow> 'n"
  ar_1em4 :: 'n
  ar_2 :: 'n

record 'n fp_market =
  fp_spot :: 'n
  fp_qRate :: 'n
  fp_rRate :: 'n
  fp_vol :: 'n
  fp_evaluationDate :: date

record 'n fp_state = "'n fp_market" +
  fp_expected :: "(string \<times> 'n) list"

record 'n fp_engine =
  fp_NPV :: "'n fp_market \<Rightarrow> contract \<Rightarrow> string + 'n"
  fp_delta :: "'n fp_market \<Rightarrow> contract \<Rightarrow> string + 'n"

fun fp_assign :: "string \<Rightarrow> 'n \<Rightarrow> (string \<times> 'n) list \<Rightarrow> (string \<times> 'n) list" where
  "fp_assign k v [] = [(k, v)]"
| "fp_assign k v ((k', v') # m) =
     (if k = k' then (k, v) # m
      else if k < k' then (k, v) # (k', v') # m
      else (k', v') # fp_assign k v m)"

definition fp_spot_setValue :: "'n \<Rightarrow> ('n fp_state, unit) run" where
  "fp_spot_setValue x = (\<lambda>s. Some (Returns (), s\<lparr>fp_spot := x\<rparr>))"

definition fp_rRate_setValue :: "'n \<Rightarrow> ('n fp_state, unit) run" where
  "fp_rRate_setValue x = (\<lambda>s. Some (Returns (), s\<lparr>fp_rRate := x\<rparr>))"

definition fp_vol_setValue :: "'n \<Rightarrow> ('n fp_state, unit) run" where
  "fp_vol_setValue x = (\<lambda>s. Some (Returns (), s\<lparr>fp_vol := x\<rparr>))"

definition fp_setEvaluationDate :: "date \<Rightarrow> ('n fp_state, unit) run" where
  "fp_setEvaluationDate d = (\<lambda>s. Some (Returns (), s\<lparr>fp_evaluationDate := d\<rparr>))"

definition fp_set_expected :: "string \<Rightarrow> 'n \<Rightarrow> ('n fp_state, unit) run" where
  "fp_set_expected k x = (\<lambda>s. Some (Returns (), s\<lparr>fp_expected := fp_assign k x (fp_expected s)\<rparr>))"

definition fp_ask ::
  "('n fp_market \<Rightarrow> contract \<Rightarrow> string + 'n) \<Rightarrow> contract \<Rightarrow> ('n fp_state, 'n) run" where
  "fp_ask f c = (\<lambda>s.
     Some (case f (fp_market.truncate s) c of
             Inl msg \<Rightarrow> Throws (QLError msg)
           | Inr x \<Rightarrow> Returns x,
           s))"

definition fp_perturb_spot ::
  "'n arith \<Rightarrow> 'n fp_engine \<Rightarrow> contract \<Rightarrow> 'n \<Rightarrow> ('n fp_state, unit) run" where
  "fp_perturb_spot ar eng c u =
     (let du = ar_times ar u (ar_1em4 ar) in
      then_do (fp_spot_setValue (ar_plus ar u du)) (\<lambda>_.
      then_do (fp_ask (fp_NPV eng) c) (\<lambda>value_p.
      then_do (fp_ask (fp_delta eng) c) (\<lambda>delta_p.
      then_do (fp_spot_setValue (ar_minus ar u du)) (\<lambda>_.
      then_do (fp_ask (fp_NPV eng) c) (\<lambda>value_m.
      then_do (fp_ask (fp_delta eng) c) (\<lambda>delta_m.
      then_do (fp_spot_setValue u) (\<lambda>_.
      then_do (fp_set_expected ''delta''
                 (ar_divide ar (ar_minus ar value_p value_m) (ar_times ar (ar_2 ar) du))) (\<lambda>_.
      fp_set_expected ''gamma''
        (ar_divide ar (ar_minus ar delta_p delta_m) (ar_times ar (ar_2 ar) du)))))))))))"

definition fp_perturb_rate ::
  "'n arith \<Rightarrow> 'n fp_engine \<Rightarrow> contract \<Rightarrow> 'n \<Rightarrow> ('n fp_state, unit) run" where
  "fp_perturb_rate ar eng c r =
     (let dr = ar_times ar r (ar_1em4 ar) in
      then_do (fp_rRate_setValue (ar_plus ar r dr)) (\<lambda>_.
      then_do (fp_ask (fp_NPV eng) c) (\<lambda>value_p.
      then_do (fp_rRate_setValue (ar_minus ar r dr)) (\<lambda>_.
      then_do (fp_ask (fp_NPV eng) c) (\<lambda>value_m.
      then_do (fp_rRate_setValue r) (\<lambda>_.
      fp_set_expected ''rho''
        (ar_divide ar (ar_minus ar value_p value_m) (ar_times ar (ar_2 ar) dr))))))))"

definition fp_perturb_vol ::
  "'n arith \<Rightarrow> 'n fp_engine \<Rightarrow> contract \<Rightarrow> 'n \<Rightarrow> ('n fp_state, unit) run" where
  "fp_perturb_vol ar eng c v =
     (let dv = ar_times ar v (ar_1em4 ar) in
      then_do (fp_vol_setValue (ar_plus ar v dv)) (\<lambda>_.
      then_do (fp_ask (fp_NPV eng) c) (\<lambda>value_p.
      then_do (fp_vol_setValue (ar_minus ar v dv)) (\<lambda>_.
      then_do (fp_ask (fp_NPV eng) c) (\<lambda>value_m.
      then_do (fp_vol_setValue v) (\<lambda>_.
      fp_set_expected ''vega''
        (ar_divide ar (ar_minus ar value_p value_m) (ar_times ar (ar_2 ar) dv))))))))"

definition fp_perturb_date ::
  "(date \<Rightarrow> date \<Rightarrow> 'n) \<Rightarrow> 'n arith \<Rightarrow> 'n fp_engine \<Rightarrow> contract \<Rightarrow> date
     \<Rightarrow> ('n fp_state, unit) run" where
  "fp_perturb_date yf ar eng c today =
     (let dT = yf (today - 1) (today + 1) in
      then_do (fp_setEvaluationDate (today - 1)) (\<lambda>_.
      then_do (fp_ask (fp_NPV eng) c) (\<lambda>value_m.
      then_do (fp_setEvaluationDate (today + 1)) (\<lambda>_.
      then_do (fp_ask (fp_NPV eng) c) (\<lambda>value_p.
      then_do (fp_setEvaluationDate today) (\<lambda>_.
      fp_set_expected ''theta'' (ar_divide ar (ar_minus ar value_p value_m) dT)))))))"

text \<open>
  Exact arithmetic on the reals, and the passage from the state, market and engine of the
  test to those of this section: under them the perturbations above are the ones of
  the test (\<open>perturb_spot_exact\<close> and its companions below).
\<close>

definition exact :: "real arith" where
  "exact = \<lparr> ar_plus = (\<lambda>x y. x + y), ar_minus = (\<lambda>x y. x - y),
     ar_times = (\<lambda>x y. x * y), ar_divide = (\<lambda>x y. x / y),
     ar_1em4 = 1 / 10000, ar_2 = 2 \<rparr>"

definition as_market :: "real fp_market \<Rightarrow> market" where
  "as_market m = \<lparr> spot = fp_spot m, qRate = fp_qRate m, rRate = fp_rRate m, vol = fp_vol m,
     evaluationDate = fp_evaluationDate m \<rparr>"

definition as_fp_state :: "test_state \<Rightarrow> real fp_state" where
  "as_fp_state s = \<lparr> fp_spot = spot s, fp_qRate = qRate s, fp_rRate = rRate s, fp_vol = vol s,
     fp_evaluationDate = evaluationDate s, fp_expected = expected s \<rparr>"

definition as_fp_engine :: "engine \<Rightarrow> real fp_engine" where
  "as_fp_engine eng = \<lparr> fp_NPV = (\<lambda>m c. NPV eng (as_market m) c),
     fp_delta = (\<lambda>m c. delta eng (as_market m) c) \<rparr>"

section \<open>Worked inputs\<close>

text \<open>
  A calendar on serial numbers with thirty-day months and a year of 360 days, an
  option of the first loop iteration under it, and the state before the test starts.
\<close>

definition example_env :: env where
  "example_env = \<lparr> todaysDate = 1000, dayCounterBase = 360,
     plusMonths = (\<lambda>d n. d + 30 * n),
     yearFraction = (\<lambda>d1 d2. real_of_int (d2 - d1) / 360) \<rparr>"

definition example_contract :: contract where
  "example_contract = \<lparr> optionType = Call, strike = 50, lastDate = 1360,
     dividendDates = [1090, 1270], dividends = [5, 5] \<rparr>"

definition fresh_state :: test_state where
  "fresh_state = \<lparr> spot = 0, qRate = 0, rRate = 0, vol = 0, evaluationDate = 1000,
     calculated = [], expected = [], requests = [] \<rparr>"

text \<open>The state at the first grid point, once the four quotes are set.\<close>

definition quoted_state :: test_state where
  "quoted_state = \<lparr> spot = 100, qRate = 0, rRate = 1 / 100, vol = 1 / 20,
     evaluationDate = 1000, calculated = [], expected = [], requests = [] \<rparr>"

text \<open>
  An engine whose value is linear in spot, rate, volatility and date, with the matching
  derivatives as Greeks: every central difference is exact.
\<close>

definition linear_engine :: engine where
  "linear_engine = \<lparr>
     NPV = (\<lambda>m c. Inr (spot m / 10 + 2 * rRate m + 3 * vol m
                        + real_of_int (evaluationDate m) / 360)),
     delta = (\<lambda>m c. Inr (1 / 10)),
     gamma = (\<lambda>m c. Inr 0),
     theta = (\<lambda>m c. Inr 1),
     rho = (\<lambda>m c. Inr 2),
     vega = (\<lambda>m c. Inr 3) \<rparr>"

text \<open>An engine that returns the same value and the same number for every Greek.\<close>

definition constant_engine :: "real \<Rightarrow> real \<Rightarrow> engine" where
  "constant_engine value g = \<lparr>
     NPV = (\<lambda>m c. Inr value),
     delta = (\<lambda>m c. Inr g),
     gamma = (\<lambda>m c. Inr g),
     theta = (\<lambda>m c. Inr g),
     rho = (\<lambda>m c. Inr g),
     vega = (\<lambda>m c. Inr g) \<rparr>"

text \<open>An engine that prices at a spot of 100 or less and raises an error above it.\<close>

definition capped_engine :: engine where
  "capped_engine = \<lparr>
     NPV = (\<lambda>m c. if spot m \<le> 100 then Inr 10 else Inl ''spot out of range''),
     delta = (\<lambda>m c. Inr (1 / 2)),
     gamma = (\<lambda>m c. Inr 0),
     theta = (\<lambda>m c. Inr 0),
     rho = (\<lambda>m c. Inr 0),
     vega = (\<lambda>m c. Inr 0) \<rparr>"

text \<open>
  The report and the state in which the sweep of \<open>constant_engine 10 1\<close> ends: the first
  grid point (call, strike 50, one year; spot 100, yield 0, rate 0.01, volatility 0.05)
  with its six analytic requests and ten perturbed ones.
\<close>

definition first_failure :: failure where
  "first_failure = \<lparr> f_exercise = European, f_optionType = Call,
     f_payoff = PlainVanilla, f_spot = 100, f_strike = 50, f_dividendYield = 0,
     f_riskFreeRate = 1 / 100, f_referenceDate = 1000, f_maturity = 1360,
     f_volatility = 1 / 20, f_greekName = ''delta'', f_expected = 0, f_calculated = 1,
     f_error = 1 / 100, f_tolerance = 1 / 100000 \<rparr>"

definition aborted_state :: test_state where
  "aborted_state = \<lparr> spot = 100, qRate = 0, rRate = 1 / 100, vol = 1 / 20,
     evaluationDate = 1000,
     calculated = [(''delta'', 1), (''gamma'', 1), (''rho'', 1), (''theta'', 1),
       (''vega'', 1)],
     expected = [(''delta'', 0), (''gamma'', 0), (''rho'', 0), (''theta'', 0),
       (''vega'', 0)],
     requests =
       [(QNPV, example_contract,
          \<lparr>spot = 100, qRate = 0, rRate = 1 / 100, vol = 1 / 20, evaluationDate = 1000\<rparr>),
        (QDelta, example_contract,
          \<lparr>spot = 100, qRate = 0, rRate = 1 / 100, vol = 1 / 20, evaluationDate = 1000\<rparr>),
        (QGamma, example_contract,
          \<lparr>spot = 100, qRate = 0, rRate = 1 / 100, vol = 1 / 20, evaluationDate = 1000\<rparr>),
        (QTheta, example_contract,
          \<lparr>spot = 100, qRate = 0, rRate = 1 / 100, vol = 1 / 20, evaluationDate = 1000\<rparr>),
        (QRho, example_contract,
          \<lparr>spot = 100, qRate = 0, rRate = 1 / 100, vol = 1 / 20, evaluationDate = 1000\<rparr>),
        (QVega, example_contract,
          \<lparr>spot = 100, qRate = 0, rRate = 1 / 100, vol = 1 / 20, evaluationDate = 1000\<rparr>),
        (QNPV, example_contract,
          \<lparr>spot = 10001 / 100, qRate = 0, rRate = 1 / 100, vol = 1 / 20, evaluationDate = 1000\<rparr>),
        (QDelta, example_contract,
          \<lparr>spot = 10001 / 100, qRate = 0, rRate = 1 / 100, vol = 1 / 20, evaluationDate = 1000\<rparr>),
        (QNPV, example_contract,
          \<lparr>spot = 9999 / 100, qRate = 0, rRate = 1 / 100, vol = 1 / 20, evaluationDate = 1000\<rparr>),
        (QDelta, example_contract,
          \<lparr>spot = 9999 / 100, qRate = 0, rRate = 1 / 100, vol = 1 / 20, evaluationDate = 1000\<rparr>),
        (QNPV, example_contract,
          \<lparr>spot = 100, qRate = 0, rRate = 10001 / 1000000, vol = 1 / 20, evaluationDate = 1000\<rparr>),
        (QNPV, example_contract,
          \<lparr>spot = 100, qRate = 0, rRate = 9999 / 1000000, vol = 1 / 20, evaluationDate = 1000\<rparr>),
        (QNPV, example_contract,
          \<lparr>spot = 100, qRate = 0, rRate = 1 / 100, vol = 10001 / 200000, evaluationDate = 1000\<rparr>),
        (QNPV, example_contract,
          \<lparr>spot = 100, qRate = 0, rRate = 1 / 100, vol = 9999 / 200000, evaluationDate = 1000\<rparr>),
        (QNPV, example_contract,
          \<lparr>spot = 100, qRate = 0, rRate = 1 / 100, vol = 1 / 20, evaluationDate = 999\<rparr>),
        (QNPV, example_contract,
          \<lparr>spot = 100, qRate = 0, rRate = 1 / 100, vol = 1 / 20, evaluationDate = 1001\<rparr>)] \<rparr>"

text \<open>
  An arithmetic with rounding: every result is cut to two decimals. Under it
  subtracting a bump and adding it again does not give the number back.
\<close>

definition two_decimals :: "real \<Rightarrow> real" where
  "two_decimals x = real_of_int \<lfloor>x * 100\<rfloor> / 100"

definition rounding :: "real arith" where
  "rounding = \<lparr> ar_plus = (\<lambda>x y. two_decimals (x + y)),
     ar_minus = (\<lambda>x y. two_decimals (x - y)),
     ar_times = (\<lambda>x y. two_decimals (x * y)),
     ar_divide = (\<lambda>x y. two_decimals (x / y)),
     ar_1em4 = 1 / 10000, ar_2 = 2 \<rparr>"

text \<open>A market whose spot, rate and volatility have a third decimal, and an engine on it.\<close>

definition fine_state :: "real fp_state" where
  "fine_state = \<lparr> fp_spot = 100005 / 1000, fp_qRate = 0, fp_rRate = 15 / 1000,
     fp_vol = 205 / 1000, fp_evaluationDate = 1000, fp_expected = [] \<rparr>"

definition spot_engine :: "real fp_engine" where
  "spot_engine = \<lparr> fp_NPV = (\<lambda>m c. Inr (fp_spot m / 10)),
     fp_delta = (\<lambda>m c. Inr (1 / 10)) \<rparr>"

section \<open>Stepping through the statements\<close>

lemmas prim_defs = then_do_def ret_def throw_def spot_setValue_def qRate_setValue_def
  rRate_setValue_def vol_setValue_def setEvaluationDate_def spot_value_def
  set_calculated_def set_expected_def ask_def option_NPV_def option_delta_def
  option_gamma_def option_theta_def option_rho_def option_vega_def

lemma check_greek_state: "check_greek c u q r today v g s = Some (out, s') \<Longrightarrow> s' = s"
  by (auto simp: check_greek_def Let_def REPORT_FAILURE_def BOOST_FAIL_def throw_def ret_def
      split: if_splits)

lemma for_each_state:
  assumes "\<And>x s out s'. body x s = Some (out, s') \<Longrightarrow> s' = s"
  shows "for_each xs body s = Some (out, s') \<Longrightarrow> s' = s"
proof (induction xs arbitrary: s)
  case Nil
  then show ?case by (simp add: ret_def)
next
  case (Cons x xs)
  then show ?case
    by (auto simp: then_do_def split: option.splits outcome.splits dest: assms)
qed

lemma compare_state: "compare c u q r today v s = Some (out, s') \<Longrightarrow> s' = s"
  unfolding compare_def by (rule for_each_state[OF check_greek_state])


lemma perturb_spot_Returns:
  assumes du: "du = u * (1 / 10000)"
    and run: "perturb_spot eng c u s = Some (Returns x, s')"
  shows "\<exists>vp dp vm dm.
      NPV eng ((market.truncate s)\<lparr>spot := u + du\<rparr>) c = Inr vp \<and>
      delta eng ((market.truncate s)\<lparr>spot := u + du\<rparr>) c = Inr dp \<and>
      NPV eng ((market.truncate s)\<lparr>spot := u - du\<rparr>) c = Inr vm \<and>
      delta eng ((market.truncate s)\<lparr>spot := u - du\<rparr>) c = Inr dm \<and>
      s' = s\<lparr>spot := u,
        expected := map_assign ''gamma'' ((dp - dm) / (2 * du))
          (map_assign ''delta'' ((vp - vm) / (2 * du)) (expected s)),
        requests := requests s @
          [(QNPV, c, (market.truncate s)\<lparr>spot := u + du\<rparr>),
           (QDelta, c, (market.truncate s)\<lparr>spot := u + du\<rparr>),
           (QNPV, c, (market.truncate s)\<lparr>spot := u - du\<rparr>),
           (QDelta, c, (market.truncate s)\<lparr>spot := u - du\<rparr>)]\<rparr>"
  using run unfolding perturb_spot_def Let_def du[symmetric]
  by (auto simp add: prim_defs market.truncate_def split: sum.splits)

lemma perturb_spot_Throws:
  assumes du: "du = u * (1 / 10000)"
    and run: "perturb_spot eng c u s = Some (Throws e, s')"
  shows "(\<exists>msg. e = QLError msg) \<and>
     (spot s' = u + du \<or> spot s' = u - du) \<and>
     qRate s' = qRate s \<and> rRate s' = rRate s \<and> vol s' = vol s \<and>
     evaluationDate s' = evaluationDate s"
  using run unfolding perturb_spot_def Let_def du[symmetric]
  by (auto simp add: prim_defs market.truncate_def split: sum.splits)


lemma perturb_rate_Returns:
  assumes dr: "dr = r * (1 / 10000)"
    and run: "perturb_rate eng c r s = Some (Returns x, s')"
  shows "\<exists>rp rm.
      NPV eng ((market.truncate s)\<lparr>rRate := r + dr\<rparr>) c = Inr rp \<and>
      NPV eng ((market.truncate s)\<lparr>rRate := r - dr\<rparr>) c = Inr rm \<and>
      s' = s\<lparr>rRate := r,
        expected := map_assign ''rho'' ((rp - rm) / (2 * dr)) (expected s),
        requests := requests s @
          [(QNPV, c, (market.truncate s)\<lparr>rRate := r + dr\<rparr>),
           (QNPV, c, (market.truncate s)\<lparr>rRate := r - dr\<rparr>)]\<rparr>"
  using run unfolding perturb_rate_def Let_def dr[symmetric]
  by (auto simp add: prim_defs market.truncate_def split: sum.splits)

lemma perturb_rate_Throws:
  assumes dr: "dr = r * (1 / 10000)"
    and run: "perturb_rate eng c r s = Some (Throws e, s')"
  shows "(\<exists>msg. e = QLError msg) \<and>
     (rRate s' = r + dr \<or> rRate s' = r - dr) \<and>
     spot s' = spot s \<and> qRate s' = qRate s \<and> vol s' = vol s \<and>
     evaluationDate s' = evaluationDate s"
  using run unfolding perturb_rate_def Let_def dr[symmetric]
  by (auto simp add: prim_defs market.truncate_def split: sum.splits)

lemma perturb_vol_Returns:
  assumes dv: "dv = v * (1 / 10000)"
    and run: "perturb_vol eng c v s = Some (Returns x, s')"
  shows "\<exists>wp wm.
      NPV eng ((market.truncate s)\<lparr>vol := v + dv\<rparr>) c = Inr wp \<and>
      NPV eng ((market.truncate s)\<lparr>vol := v - dv\<rparr>) c = Inr wm \<and>
      s' = s\<lparr>vol := v,
        expected := map_assign ''vega'' ((wp - wm) / (2 * dv)) (expected s),
        requests := requests s @
          [(QNPV, c, (market.truncate s)\<lparr>vol := v + dv\<rparr>),
           (QNPV, c, (market.truncate s)\<lparr>vol := v - dv\<rparr>)]\<rparr>"
  using run unfolding perturb_vol_def Let_def dv[symmetric]
  by (auto simp add: prim_defs market.truncate_def split: sum.splits)

lemma perturb_vol_Throws:
  assumes dv: "dv = v * (1 / 10000)"
    and run: "perturb_vol eng c v s = Some (Throws e, s')"
  shows "(\<exists>msg. e = QLError msg) \<and>
     (vol s' = v + dv \<or> vol s' = v - dv) \<and>
     spot s' = spot s \<and> qRate s' = qRate s \<and> rRate s' = rRate s \<and>
     evaluationDate s' = evaluationDate s"
  using run unfolding perturb_vol_def Let_def dv[symmetric]
  by (auto simp add: prim_defs market.truncate_def split: sum.splits)

lemma perturb_date_Returns:
  assumes run: "perturb_date ev eng c today s = Some (Returns x, s')"
  shows "\<exists>tm tp.
      NPV eng ((market.truncate s)\<lparr>evaluationDate := today - 1\<rparr>) c = Inr tm \<and>
      NPV eng ((market.truncate s)\<lparr>evaluationDate := today + 1\<rparr>) c = Inr tp \<and>
      s' = s\<lparr>evaluationDate := today,
        expected := map_assign ''theta''
          ((tp - tm) / yearFraction ev (today - 1) (today + 1)) (expected s),
        requests := requests s @
          [(QNPV, c, (market.truncate s)\<lparr>evaluationDate := today - 1\<rparr>),
           (QNPV, c, (market.truncate s)\<lparr>evaluationDate := today + 1\<rparr>)]\<rparr>"
  using run unfolding perturb_date_def Let_def
  by (auto simp add: prim_defs market.truncate_def split: sum.splits)

lemma perturb_date_Throws:
  assumes run: "perturb_date ev eng c today s = Some (Throws e, s')"
  shows "(\<exists>msg. e = QLError msg) \<and>
     (evaluationDate s' = today - 1 \<or> evaluationDate s' = today + 1) \<and>
     spot s' = spot s \<and> qRate s' = qRate s \<and> rRate s' = rRate s \<and> vol s' = vol s"
  using run unfolding perturb_date_def Let_def
  by (auto simp add: prim_defs market.truncate_def split: sum.splits)

lemma then_do_cases [consumes 1, case_names thrown continued]:
  assumes "then_do m f s = Some (out, s')"
  obtains e where "m s = Some (Throws e, s')" and "out = Throws e"
  | x s1 where "m s = Some (Returns x, s1)" and "f x s1 = Some (out, s')"
  using assms by (auto simp: then_do_def split: option.splits outcome.splits)

lemma grid_point_no_error:
  assumes "grid_point ev eng c today u q r v s = Some (out, s')"
    and "\<forall>msg. out \<noteq> Throws (QLError msg)"
  shows "\<exists>value de ga th rh ve.
      NPV eng \<lparr>spot = u, qRate = q, rRate = r, vol = v, evaluationDate = evaluationDate s\<rparr> c = Inr value \<and>
      delta eng \<lparr>spot = u, qRate = q, rRate = r, vol = v, evaluationDate = evaluationDate s\<rparr> c = Inr de \<and>
      gamma eng \<lparr>spot = u, qRate = q, rRate = r, vol = v, evaluationDate = evaluationDate s\<rparr> c = Inr ga \<and>
      theta eng \<lparr>spot = u, qRate = q, rRate = r, vol = v, evaluationDate = evaluationDate s\<rparr> c = Inr th \<and>
      rho eng \<lparr>spot = u, qRate = q, rRate = r, vol = v, evaluationDate = evaluationDate s\<rparr> c = Inr rh \<and>
      vega eng \<lparr>spot = u, qRate = q, rRate = r, vol = v, evaluationDate = evaluationDate s\<rparr> c = Inr ve"
  using assms
  apply (simp add: grid_point_def prim_defs market.truncate_def split: sum.splits)
  apply auto
  done

lemma grid_point_compared:
  assumes "NPV eng \<lparr>spot = u, qRate = q, rRate = r, vol = v, evaluationDate = evaluationDate s\<rparr> c = Inr value"
    and "delta eng \<lparr>spot = u, qRate = q, rRate = r, vol = v, evaluationDate = evaluationDate s\<rparr> c = Inr de"
    and "gamma eng \<lparr>spot = u, qRate = q, rRate = r, vol = v, evaluationDate = evaluationDate s\<rparr> c = Inr ga"
    and "theta eng \<lparr>spot = u, qRate = q, rRate = r, vol = v, evaluationDate = evaluationDate s\<rparr> c = Inr th"
    and "rho eng \<lparr>spot = u, qRate = q, rRate = r, vol = v, evaluationDate = evaluationDate s\<rparr> c = Inr rh"
    and "vega eng \<lparr>spot = u, qRate = q, rRate = r, vol = v, evaluationDate = evaluationDate s\<rparr> c = Inr ve"
  shows "grid_point ev eng c today u q r v s =
     (let m0 = \<lparr>spot = u, qRate = q, rRate = r, vol = v, evaluationDate = evaluationDate s\<rparr>;
          s0 = s\<lparr>spot := u, qRate := q, rRate := r, vol := v,
            requests := requests s @ [(QNPV, c, m0), (QDelta, c, m0), (QGamma, c, m0),
              (QTheta, c, m0), (QRho, c, m0), (QVega, c, m0)],
            calculated := map_assign ''vega'' ve (map_assign ''rho'' rh (map_assign ''theta'' th
              (map_assign ''gamma'' ga (map_assign ''delta'' de (calculated s)))))\<rparr>
      in if value > u * (1 / 100000)
         then then_do (perturb_spot eng c u) (\<lambda>_.
              then_do (perturb_rate eng c r) (\<lambda>_.
              then_do (perturb_vol eng c v) (\<lambda>_.
              then_do (perturb_date ev eng c today) (\<lambda>_.
              compare c u q r today v)))) s0
         else Some (Returns (), s0))"
  using assms
  by (simp add: grid_point_def prim_defs market.truncate_def Let_def)

lemma grid_point_probed:
  assumes run: "grid_point ev eng c today u q r v s = Some (out, s')"
    and ok: "\<forall>msg. out \<noteq> Throws (QLError msg)"
    and val: "NPV eng \<lparr>spot = u, qRate = q, rRate = r, vol = v, evaluationDate = evaluationDate s\<rparr> c = Inr value"
    and big: "value > u * (1 / 100000)"
  shows "\<exists>vp dp vm dm rp rm wp wm tm tp.
      NPV eng \<lparr>spot = u + u * (1 / 10000), qRate = q, rRate = r, vol = v, evaluationDate = evaluationDate s\<rparr> c = Inr vp \<and>
      delta eng \<lparr>spot = u + u * (1 / 10000), qRate = q, rRate = r, vol = v, evaluationDate = evaluationDate s\<rparr> c = Inr dp \<and>
      NPV eng \<lparr>spot = u - u * (1 / 10000), qRate = q, rRate = r, vol = v, evaluationDate = evaluationDate s\<rparr> c = Inr vm \<and>
      delta eng \<lparr>spot = u - u * (1 / 10000), qRate = q, rRate = r, vol = v, evaluationDate = evaluationDate s\<rparr> c = Inr dm \<and>
      NPV eng \<lparr>spot = u, qRate = q, rRate = r + r * (1 / 10000), vol = v, evaluationDate = evaluationDate s\<rparr> c = Inr rp \<and>
      NPV eng \<lparr>spot = u, qRate = q, rRate = r - r * (1 / 10000), vol = v, evaluationDate = evaluationDate s\<rparr> c = Inr rm \<and>
      NPV eng \<lparr>spot = u, qRate = q, rRate = r, vol = v + v * (1 / 10000), evaluationDate = evaluationDate s\<rparr> c = Inr wp \<and>
      NPV eng \<lparr>spot = u, qRate = q, rRate = r, vol = v - v * (1 / 10000), evaluationDate = evaluationDate s\<rparr> c = Inr wm \<and>
      NPV eng \<lparr>spot = u, qRate = q, rRate = r, vol = v, evaluationDate = today - 1\<rparr> c = Inr tm \<and>
      NPV eng \<lparr>spot = u, qRate = q, rRate = r, vol = v, evaluationDate = today + 1\<rparr> c = Inr tp \<and>
      expected s' =
        map_assign ''theta'' ((tp - tm) / yearFraction ev (today - 1) (today + 1))
          (map_assign ''vega'' ((wp - wm) / (2 * (v * (1 / 10000))))
            (map_assign ''rho'' ((rp - rm) / (2 * (r * (1 / 10000))))
              (map_assign ''gamma'' ((dp - dm) / (2 * (u * (1 / 10000))))
                (map_assign ''delta'' ((vp - vm) / (2 * (u * (1 / 10000)))) (expected s))))) \<and>
      market.truncate s' = \<lparr>spot = u, qRate = q, rRate = r, vol = v, evaluationDate = today\<rparr> \<and>
      length (requests s') = length (requests s) + 16 \<and>
      compare c u q r today v s' = Some (out, s')"
proof -
  define du where "du = u * (1 / 10000)"
  define dr where "dr = r * (1 / 10000)"
  define dv where "dv = v * (1 / 10000)"
  define m0 where "m0 = \<lparr>spot = u, qRate = q, rRate = r, vol = v, evaluationDate = evaluationDate s\<rparr>"
  from grid_point_no_error[OF run ok] val
  obtain de ga th rh ve where
    six: "NPV eng m0 c = Inr value" "delta eng m0 c = Inr de" "gamma eng m0 c = Inr ga"
      "theta eng m0 c = Inr th" "rho eng m0 c = Inr rh" "vega eng m0 c = Inr ve"
    unfolding m0_def by auto
  define s0 where "s0 = s\<lparr>spot := u, qRate := q, rRate := r, vol := v,
            requests := requests s @ [(QNPV, c, m0), (QDelta, c, m0), (QGamma, c, m0),
              (QTheta, c, m0), (QRho, c, m0), (QVega, c, m0)],
            calculated := map_assign ''vega'' ve (map_assign ''rho'' rh (map_assign ''theta'' th
              (map_assign ''gamma'' ga (map_assign ''delta'' de (calculated s)))))\<rparr>"
  have t0: "market.truncate s0 = m0"
    by (simp add: s0_def m0_def market.truncate_def)
  have chain: "then_do (perturb_spot eng c u) (\<lambda>_.
              then_do (perturb_rate eng c r) (\<lambda>_.
              then_do (perturb_vol eng c v) (\<lambda>_.
              then_do (perturb_date ev eng c today) (\<lambda>_.
              compare c u q r today v)))) s0 = Some (out, s')"
    using grid_point_compared[OF six[unfolded m0_def], of ev today] run big
    by (simp only: Let_def s0_def m0_def if_True)
  from chain show ?thesis
  proof (cases rule: then_do_cases)
    case (thrown e)
    from perturb_spot_Throws[OF du_def thrown(1)] obtain msg where "e = QLError msg" by blast
    with ok thrown(2) have False by simp
    then show ?thesis ..
  next
    case (continued x1 s1)
    from perturb_spot_Returns[OF du_def continued(1)] obtain vp dp vm dm where
      p1: "NPV eng (m0\<lparr>spot := u + du\<rparr>) c = Inr vp" "delta eng (m0\<lparr>spot := u + du\<rparr>) c = Inr dp"
        "NPV eng (m0\<lparr>spot := u - du\<rparr>) c = Inr vm" "delta eng (m0\<lparr>spot := u - du\<rparr>) c = Inr dm"
      and s1: "market.truncate s1 = m0"
        "expected s1 = map_assign ''gamma'' ((dp - dm) / (2 * du))
          (map_assign ''delta'' ((vp - vm) / (2 * du)) (expected s))"
        "length (requests s1) = length (requests s) + 10"
      unfolding t0 by (auto simp: market.truncate_def s0_def m0_def)
    from continued(2) show ?thesis
    proof (cases rule: then_do_cases)
      case (thrown e)
      from perturb_rate_Throws[OF dr_def thrown(1)] obtain msg where "e = QLError msg" by blast
    with ok thrown(2) have False by simp
    then show ?thesis ..
    next
      case (continued x2 s2)
      from perturb_rate_Returns[OF dr_def continued(1)] obtain rp rm where
        p2: "NPV eng (m0\<lparr>rRate := r + dr\<rparr>) c = Inr rp" "NPV eng (m0\<lparr>rRate := r - dr\<rparr>) c = Inr rm"
        and s2: "market.truncate s2 = m0"
          "expected s2 = map_assign ''rho'' ((rp - rm) / (2 * dr)) (expected s1)"
          "length (requests s2) = length (requests s1) + 2"
        unfolding s1(1) using s1(1) by (auto simp: market.truncate_def m0_def)
      from continued(2) show ?thesis
      proof (cases rule: then_do_cases)
        case (thrown e)
        from perturb_vol_Throws[OF dv_def thrown(1)] obtain msg where "e = QLError msg" by blast
    with ok thrown(2) have False by simp
    then show ?thesis ..
      next
        case (continued x3 s3)
        from perturb_vol_Returns[OF dv_def continued(1)] obtain wp wm where
          p3: "NPV eng (m0\<lparr>vol := v + dv\<rparr>) c = Inr wp" "NPV eng (m0\<lparr>vol := v - dv\<rparr>) c = Inr wm"
          and s3: "market.truncate s3 = m0"
            "expected s3 = map_assign ''vega'' ((wp - wm) / (2 * dv)) (expected s2)"
            "length (requests s3) = length (requests s2) + 2"
          unfolding s2(1) using s2(1) by (auto simp: market.truncate_def m0_def)
        from continued(2) show ?thesis
        proof (cases rule: then_do_cases)
          case (thrown e)
          from perturb_date_Throws[OF thrown(1)] obtain msg where "e = QLError msg" by blast
    with ok thrown(2) have False by simp
    then show ?thesis ..
        next
          case (continued x4 s4)
          from perturb_date_Returns[OF continued(1)] obtain tm tp where
            p4: "NPV eng (m0\<lparr>evaluationDate := today - 1\<rparr>) c = Inr tm"
              "NPV eng (m0\<lparr>evaluationDate := today + 1\<rparr>) c = Inr tp"
            and s4: "market.truncate s4 = m0\<lparr>evaluationDate := today\<rparr>"
              "expected s4 = map_assign ''theta''
                 ((tp - tm) / yearFraction ev (today - 1) (today + 1)) (expected s3)"
              "length (requests s4) = length (requests s3) + 2"
            unfolding s3(1) using s3(1) by (auto simp: market.truncate_def m0_def)
          from compare_state[OF continued(2)] have e: "s' = s4" .
          have c: "compare c u q r today v s' = Some (out, s')"
            using continued(2) e by simp
          show ?thesis
            apply (rule exI[of _ vp], rule exI[of _ dp], rule exI[of _ vm], rule exI[of _ dm])
            apply (rule exI[of _ rp], rule exI[of _ rm], rule exI[of _ wp], rule exI[of _ wm])
            apply (rule exI[of _ tm], rule exI[of _ tp])
            using p1 p2 p3 p4 s1 s2 s3 s4 c
            unfolding e du_def dr_def dv_def m0_def
            by simp
        qed
      qed
    qed
  qed
qed

lemma map_of_map_assign: "map_of (map_assign k v m) = (map_of m)(k \<mapsto> v)"
  by (induction m) (auto simp: fun_eq_iff)

lemma map_at_map_assign:
  "map_at (map_assign k v m) k' = (if k' = k then v else map_at m k')"
  by (simp add: map_at_def map_of_map_assign)

lemmas example_defs = example_env_def example_contract_def fresh_state_def quoted_state_def
  linear_engine_def constant_engine_def capped_engine_def

lemma linear_run:
  "\<exists>s'. grid_point example_env linear_engine example_contract 1000 100 0 (1 / 100) (1 / 20)
     fresh_state = Some (Returns (), s')"
  by (simp add: grid_point_def perturb_spot_def perturb_rate_def perturb_vol_def
      perturb_date_def compare_def check_greek_def relativeError_def tolerance_def
      map_at_def prim_defs example_defs market.truncate_def Let_def)



section \<open>The finite-difference estimates\<close>

text \<open>
  C1. At a grid point that is not skipped (the base value exceeds \<open>spot * 1e-5\<close>) and
  whose pricing calls all return, the entry \<open>gamma\<close> of \<open>expected\<close> is the central
  difference of the engine's analytic delta at the spots \<open>u + du\<close> and \<open>u - du\<close>,
  \<open>du = u * 1e-4\<close>, divided by \<open>2 * du\<close>.
\<close>

theorem gamma_estimate_uses_analytic_delta:
  assumes "grid_point ev eng c today u q r v s = Some (out, s')"
    and "\<forall>msg. out \<noteq> Throws (QLError msg)"
    and "NPV eng \<lparr>spot = u, qRate = q, rRate = r, vol = v, evaluationDate = evaluationDate s\<rparr> c = Inr value"
    and "value > u * (1 / 100000)"
    and "u \<noteq> 0"
  shows "\<exists>dp dm.
      delta eng \<lparr>spot = u + u * (1 / 10000), qRate = q, rRate = r, vol = v, evaluationDate = evaluationDate s\<rparr> c = Inr dp \<and>
      delta eng \<lparr>spot = u - u * (1 / 10000), qRate = q, rRate = r, vol = v, evaluationDate = evaluationDate s\<rparr> c = Inr dm \<and>
      map_at (expected s') ''gamma'' = (dp - dm) / (2 * (u * (1 / 10000)))"
proof -
  from grid_point_probed[OF assms(1-4)] obtain vp dp vm dm rp rm wp wm tm tp where
    d: "delta eng \<lparr>spot = u + u * (1 / 10000), qRate = q, rRate = r, vol = v, evaluationDate = evaluationDate s\<rparr> c = Inr dp"
       "delta eng \<lparr>spot = u - u * (1 / 10000), qRate = q, rRate = r, vol = v, evaluationDate = evaluationDate s\<rparr> c = Inr dm"
    and e: "expected s' =
        map_assign ''theta'' ((tp - tm) / yearFraction ev (today - 1) (today + 1))
          (map_assign ''vega'' ((wp - wm) / (2 * (v * (1 / 10000))))
            (map_assign ''rho'' ((rp - rm) / (2 * (r * (1 / 10000))))
              (map_assign ''gamma'' ((dp - dm) / (2 * (u * (1 / 10000))))
                (map_assign ''delta'' ((vp - vm) / (2 * (u * (1 / 10000)))) (expected s)))))"
    by blast
  have "map_at (expected s') ''gamma'' = (dp - dm) / (2 * (u * (1 / 10000)))"
    unfolding e by (simp only: map_at_map_assign) simp
  with d show ?thesis by blast
qed

theorem gamma_estimate_witness:
  "\<exists>out s'.
     grid_point example_env linear_engine example_contract 1000 100 0 (1 / 100) (1 / 20)
       fresh_state = Some (out, s') \<and>
     (\<forall>msg. out \<noteq> Throws (QLError msg)) \<and>
     NPV linear_engine \<lparr>spot = 100, qRate = 0, rRate = 1 / 100, vol = 1 / 20,
       evaluationDate = evaluationDate fresh_state\<rparr> example_contract = Inr (11653 / 900) \<and>
     (11653 / 900 :: real) > 100 * (1 / 100000) \<and> (100 :: real) \<noteq> 0 \<and>
     (\<exists>dp dm.
        delta linear_engine \<lparr>spot = 100 + 100 * (1 / 10000), qRate = 0, rRate = 1 / 100,
          vol = 1 / 20, evaluationDate = evaluationDate fresh_state\<rparr> example_contract = Inr dp \<and>
        delta linear_engine \<lparr>spot = 100 - 100 * (1 / 10000), qRate = 0, rRate = 1 / 100,
          vol = 1 / 20, evaluationDate = evaluationDate fresh_state\<rparr> example_contract = Inr dm \<and>
        map_at (expected s') ''gamma'' = (dp - dm) / (2 * (100 * (1 / 10000))))"
proof -
  obtain s' where run: "grid_point example_env linear_engine example_contract 1000 100 0
      (1 / 100) (1 / 20) fresh_state = Some (Returns (), s')"
    using linear_run by blast
  have ok: "\<forall>msg. Returns () \<noteq> Throws (QLError msg)" by simp
  have val: "NPV linear_engine \<lparr>spot = 100, qRate = 0, rRate = 1 / 100, vol = 1 / 20,
       evaluationDate = evaluationDate fresh_state\<rparr> example_contract = Inr (11653 / 900)"
    by (simp add: example_defs)
  have big: "(11653 / 900 :: real) > 100 * (1 / 100000)" by simp
  have nz: "(100 :: real) \<noteq> 0" by simp
  note concl = gamma_estimate_uses_analytic_delta[OF run ok val big nz]
  show ?thesis
    by (rule exI[of _ "Returns ()"], rule exI[of _ s'])
       (use run ok val big nz concl in blast)
qed

text \<open>
  C5. At a grid point that is not skipped and whose pricing calls all return, the entries
  \<open>delta\<close>, \<open>rho\<close> and \<open>vega\<close> of \<open>expected\<close> are central differences of the
  analytic value: the spot is bumped by \<open>du = u * 1e-4\<close>, the risk-free rate by
  \<open>dr = r * 1e-4\<close>, the volatility by \<open>dv = v * 1e-4\<close>, and the difference of the two
  values is divided by twice the bump.
\<close>

theorem value_central_differences:
  assumes "grid_point ev eng c today u q r v s = Some (out, s')"
    and "\<forall>msg. out \<noteq> Throws (QLError msg)"
    and "NPV eng \<lparr>spot = u, qRate = q, rRate = r, vol = v, evaluationDate = evaluationDate s\<rparr> c = Inr value"
    and "value > u * (1 / 100000)"
    and "u \<noteq> 0" and "r \<noteq> 0" and "v \<noteq> 0"
  shows "\<exists>vp vm rp rm wp wm.
      NPV eng \<lparr>spot = u + u * (1 / 10000), qRate = q, rRate = r, vol = v, evaluationDate = evaluationDate s\<rparr> c = Inr vp \<and>
      NPV eng \<lparr>spot = u - u * (1 / 10000), qRate = q, rRate = r, vol = v, evaluationDate = evaluationDate s\<rparr> c = Inr vm \<and>
      map_at (expected s') ''delta'' = (vp - vm) / (2 * (u * (1 / 10000))) \<and>
      NPV eng \<lparr>spot = u, qRate = q, rRate = r + r * (1 / 10000), vol = v, evaluationDate = evaluationDate s\<rparr> c = Inr rp \<and>
      NPV eng \<lparr>spot = u, qRate = q, rRate = r - r * (1 / 10000), vol = v, evaluationDate = evaluationDate s\<rparr> c = Inr rm \<and>
      map_at (expected s') ''rho'' = (rp - rm) / (2 * (r * (1 / 10000))) \<and>
      NPV eng \<lparr>spot = u, qRate = q, rRate = r, vol = v + v * (1 / 10000), evaluationDate = evaluationDate s\<rparr> c = Inr wp \<and>
      NPV eng \<lparr>spot = u, qRate = q, rRate = r, vol = v - v * (1 / 10000), evaluationDate = evaluationDate s\<rparr> c = Inr wm \<and>
      map_at (expected s') ''vega'' = (wp - wm) / (2 * (v * (1 / 10000)))"
proof -
  from grid_point_probed[OF assms(1-4)] obtain vp dp vm dm rp rm wp wm tm tp where
    n: "NPV eng \<lparr>spot = u + u * (1 / 10000), qRate = q, rRate = r, vol = v, evaluationDate = evaluationDate s\<rparr> c = Inr vp"
       "NPV eng \<lparr>spot = u - u * (1 / 10000), qRate = q, rRate = r, vol = v, evaluationDate = evaluationDate s\<rparr> c = Inr vm"
       "NPV eng \<lparr>spot = u, qRate = q, rRate = r + r * (1 / 10000), vol = v, evaluationDate = evaluationDate s\<rparr> c = Inr rp"
       "NPV eng \<lparr>spot = u, qRate = q, rRate = r - r * (1 / 10000), vol = v, evaluationDate = evaluationDate s\<rparr> c = Inr rm"
       "NPV eng \<lparr>spot = u, qRate = q, rRate = r, vol = v + v * (1 / 10000), evaluationDate = evaluationDate s\<rparr> c = Inr wp"
       "NPV eng \<lparr>spot = u, qRate = q, rRate = r, vol = v - v * (1 / 10000), evaluationDate = evaluationDate s\<rparr> c = Inr wm"
    and e: "expected s' =
        map_assign ''theta'' ((tp - tm) / yearFraction ev (today - 1) (today + 1))
          (map_assign ''vega'' ((wp - wm) / (2 * (v * (1 / 10000))))
            (map_assign ''rho'' ((rp - rm) / (2 * (r * (1 / 10000))))
              (map_assign ''gamma'' ((dp - dm) / (2 * (u * (1 / 10000))))
                (map_assign ''delta'' ((vp - vm) / (2 * (u * (1 / 10000)))) (expected s)))))"
    by blast
  have "map_at (expected s') ''delta'' = (vp - vm) / (2 * (u * (1 / 10000)))"
    and "map_at (expected s') ''rho'' = (rp - rm) / (2 * (r * (1 / 10000)))"
    and "map_at (expected s') ''vega'' = (wp - wm) / (2 * (v * (1 / 10000)))"
    unfolding e by (simp_all only: map_at_map_assign) simp_all
  with n show ?thesis by blast
qed

theorem value_central_differences_witness:
  "\<exists>out s'.
     grid_point example_env linear_engine example_contract 1000 100 0 (1 / 100) (1 / 20)
       fresh_state = Some (out, s') \<and>
     (\<forall>msg. out \<noteq> Throws (QLError msg)) \<and>
     NPV linear_engine \<lparr>spot = 100, qRate = 0, rRate = 1 / 100, vol = 1 / 20, evaluationDate = evaluationDate fresh_state\<rparr> example_contract = Inr (11653 / 900) \<and>
     (11653 / 900 :: real) > 100 * (1 / 100000) \<and>
     (100 :: real) \<noteq> 0 \<and> (1 / 100 :: real) \<noteq> 0 \<and> (1 / 20 :: real) \<noteq> 0 \<and>
     (\<exists>vp vm rp rm wp wm.
      NPV linear_engine \<lparr>spot = 100 + 100 * (1 / 10000), qRate = 0, rRate = 1 / 100, vol = 1 / 20, evaluationDate = evaluationDate fresh_state\<rparr> example_contract = Inr vp \<and>
      NPV linear_engine \<lparr>spot = 100 - 100 * (1 / 10000), qRate = 0, rRate = 1 / 100, vol = 1 / 20, evaluationDate = evaluationDate fresh_state\<rparr> example_contract = Inr vm \<and>
      map_at (expected s') ''delta'' = (vp - vm) / (2 * (100 * (1 / 10000))) \<and>
      NPV linear_engine \<lparr>spot = 100, qRate = 0, rRate = 1 / 100 + 1 / 100 * (1 / 10000), vol = 1 / 20, evaluationDate = evaluationDate fresh_state\<rparr> example_contract = Inr rp \<and>
      NPV linear_engine \<lparr>spot = 100, qRate = 0, rRate = 1 / 100 - 1 / 100 * (1 / 10000), vol = 1 / 20, evaluationDate = evaluationDate fresh_state\<rparr> example_contract = Inr rm \<and>
      map_at (expected s') ''rho'' = (rp - rm) / (2 * (1 / 100 * (1 / 10000))) \<and>
      NPV linear_engine \<lparr>spot = 100, qRate = 0, rRate = 1 / 100, vol = 1 / 20 + 1 / 20 * (1 / 10000), evaluationDate = evaluationDate fresh_state\<rparr> example_contract = Inr wp \<and>
      NPV linear_engine \<lparr>spot = 100, qRate = 0, rRate = 1 / 100, vol = 1 / 20 - 1 / 20 * (1 / 10000), evaluationDate = evaluationDate fresh_state\<rparr> example_contract = Inr wm \<and>
      map_at (expected s') ''vega'' = (wp - wm) / (2 * (1 / 20 * (1 / 10000))))"
proof -
  obtain s' where run: "grid_point example_env linear_engine example_contract 1000 100 0 (1 / 100) (1 / 20)
       fresh_state = Some (Returns (), s')"
    using linear_run by blast
  have ok: "\<forall>msg. Returns () \<noteq> Throws (QLError msg)" by simp
  have val: "NPV linear_engine \<lparr>spot = 100, qRate = 0, rRate = 1 / 100, vol = 1 / 20, evaluationDate = evaluationDate fresh_state\<rparr> example_contract = Inr (11653 / 900)"
    by (simp add: example_defs)
  have big: "(11653 / 900 :: real) > 100 * (1 / 100000)" by simp
  have nz: "(100 :: real) \<noteq> 0" "(1 / 100 :: real) \<noteq> 0" "(1 / 20 :: real) \<noteq> 0" by simp_all
  note concl = value_central_differences[OF run ok val big nz]
  show ?thesis
    by (rule exI[of _ "Returns ()"], rule exI[of _ s'])
       (use run ok val big nz concl in blast)
qed

text \<open>
  C3. At a grid point that is not skipped and whose pricing calls all return, the entry
  \<open>theta\<close> of \<open>expected\<close> is the value at the evaluation date \<open>today + 1\<close> minus the
  value at \<open>today - 1\<close>, divided by the year fraction between these two dates; the step
  is one day whatever the contract, and afterwards the evaluation date is again the one
  it was before.
\<close>

theorem theta_estimate_one_day_step:
  assumes "grid_point ev eng c today u q r v s = Some (out, s')"
    and "\<forall>msg. out \<noteq> Throws (QLError msg)"
    and "NPV eng \<lparr>spot = u, qRate = q, rRate = r, vol = v, evaluationDate = evaluationDate s\<rparr> c = Inr value"
    and "value > u * (1 / 100000)"
    and "evaluationDate s = today"
    and "yearFraction ev (today - 1) (today + 1) \<noteq> 0"
  shows "\<exists>tp tm.
      NPV eng \<lparr>spot = u, qRate = q, rRate = r, vol = v, evaluationDate = today + 1\<rparr> c = Inr tp \<and>
      NPV eng \<lparr>spot = u, qRate = q, rRate = r, vol = v, evaluationDate = today - 1\<rparr> c = Inr tm \<and>
      map_at (expected s') ''theta'' = (tp - tm) / yearFraction ev (today - 1) (today + 1) \<and>
      evaluationDate s' = evaluationDate s"
proof -
  from grid_point_probed[OF assms(1-4)] obtain vp dp vm dm rp rm wp wm tm tp where
    n: "NPV eng \<lparr>spot = u, qRate = q, rRate = r, vol = v, evaluationDate = today + 1\<rparr> c = Inr tp"
       "NPV eng \<lparr>spot = u, qRate = q, rRate = r, vol = v, evaluationDate = today - 1\<rparr> c = Inr tm"
    and e: "expected s' =
        map_assign ''theta'' ((tp - tm) / yearFraction ev (today - 1) (today + 1))
          (map_assign ''vega'' ((wp - wm) / (2 * (v * (1 / 10000))))
            (map_assign ''rho'' ((rp - rm) / (2 * (r * (1 / 10000))))
              (map_assign ''gamma'' ((dp - dm) / (2 * (u * (1 / 10000))))
                (map_assign ''delta'' ((vp - vm) / (2 * (u * (1 / 10000)))) (expected s)))))"
    and t: "market.truncate s' = \<lparr>spot = u, qRate = q, rRate = r, vol = v, evaluationDate = today\<rparr>"
    by blast
  have "map_at (expected s') ''theta'' = (tp - tm) / yearFraction ev (today - 1) (today + 1)"
    unfolding e by (simp only: map_at_map_assign) simp
  moreover from t assms(5) have "evaluationDate s' = evaluationDate s"
    by (simp add: market.truncate_def)
  ultimately show ?thesis using n by blast
qed

theorem theta_estimate_witness:
  "\<exists>out s'.
     grid_point example_env linear_engine example_contract 1000 100 0 (1 / 100) (1 / 20)
       fresh_state = Some (out, s') \<and>
     (\<forall>msg. out \<noteq> Throws (QLError msg)) \<and>
     NPV linear_engine \<lparr>spot = 100, qRate = 0, rRate = 1 / 100, vol = 1 / 20, evaluationDate = evaluationDate fresh_state\<rparr> example_contract = Inr (11653 / 900) \<and>
     (11653 / 900 :: real) > 100 * (1 / 100000) \<and>
     evaluationDate fresh_state = 1000 \<and>
     yearFraction example_env (1000 - 1) (1000 + 1) \<noteq> 0 \<and>
     (\<exists>tp tm.
      NPV linear_engine \<lparr>spot = 100, qRate = 0, rRate = 1 / 100, vol = 1 / 20, evaluationDate = 1000 + 1\<rparr> example_contract = Inr tp \<and>
      NPV linear_engine \<lparr>spot = 100, qRate = 0, rRate = 1 / 100, vol = 1 / 20, evaluationDate = 1000 - 1\<rparr> example_contract = Inr tm \<and>
      map_at (expected s') ''theta'' = (tp - tm) / yearFraction example_env (1000 - 1) (1000 + 1) \<and>
      evaluationDate s' = evaluationDate fresh_state)"
proof -
  obtain s' where run: "grid_point example_env linear_engine example_contract 1000 100 0 (1 / 100) (1 / 20)
       fresh_state = Some (Returns (), s')"
    using linear_run by blast
  have ok: "\<forall>msg. Returns () \<noteq> Throws (QLError msg)" by simp
  have val: "NPV linear_engine \<lparr>spot = 100, qRate = 0, rRate = 1 / 100, vol = 1 / 20, evaluationDate = evaluationDate fresh_state\<rparr> example_contract = Inr (11653 / 900)"
    by (simp add: example_defs)
  have big: "(11653 / 900 :: real) > 100 * (1 / 100000)" by simp
  have d: "evaluationDate fresh_state = 1000" by (simp add: example_defs)
  have yf: "yearFraction example_env (1000 - 1) (1000 + 1) \<noteq> 0" by (simp add: example_defs)
  note concl = theta_estimate_one_day_step[OF run ok val big d yf]
  show ?thesis
    by (rule exI[of _ "Returns ()"], rule exI[of _ s'])
       (use run ok val big d yf concl in blast)
qed

section \<open>Restoring the market\<close>

lemma capped_spot_run:
  "perturb_spot capped_engine example_contract 100 quoted_state =
     Some (Throws (QLError ''spot out of range''),
       quoted_state\<lparr>spot := 10001 / 100,
         requests := [(QNPV, example_contract,
           \<lparr>spot = 10001 / 100, qRate = 0, rRate = 1 / 100, vol = 1 / 20,
             evaluationDate = 1000\<rparr>)]\<rparr>)"
  by (simp add: perturb_spot_def prim_defs example_defs market.truncate_def Let_def)

lemma perturb_spot_market:
  assumes "perturb_spot eng c (spot s) s = Some (Returns x, s')"
  shows "market.truncate s' = market.truncate s"
  using perturb_spot_Returns[OF refl assms] by (auto simp: market.truncate_def)

lemma perturb_rate_market:
  assumes "perturb_rate eng c (rRate s) s = Some (Returns x, s')"
  shows "market.truncate s' = market.truncate s"
  using perturb_rate_Returns[OF refl assms] by (auto simp: market.truncate_def)

lemma perturb_vol_market:
  assumes "perturb_vol eng c (vol s) s = Some (Returns x, s')"
  shows "market.truncate s' = market.truncate s"
  using perturb_vol_Returns[OF refl assms] by (auto simp: market.truncate_def)

lemma perturb_date_market:
  assumes "perturb_date ev eng c (evaluationDate s) s = Some (Returns x, s')"
  shows "market.truncate s' = market.truncate s"
  using perturb_date_Returns[OF assms] by (auto simp: market.truncate_def)

lemma perturb_spot_leak:
  assumes "perturb_spot eng c (spot s) s = Some (Throws e, s')" and "spot s \<noteq> 0"
  shows "(\<exists>msg. e = QLError msg) \<and> market.truncate s' \<noteq> market.truncate s"
  using perturb_spot_Throws[OF refl assms(1)] assms(2) by (auto simp: market.truncate_def)

lemma perturb_rate_leak:
  assumes "perturb_rate eng c (rRate s) s = Some (Throws e, s')" and "rRate s \<noteq> 0"
  shows "(\<exists>msg. e = QLError msg) \<and> market.truncate s' \<noteq> market.truncate s"
  using perturb_rate_Throws[OF refl assms(1)] assms(2) by (auto simp: market.truncate_def)

lemma perturb_vol_leak:
  assumes "perturb_vol eng c (vol s) s = Some (Throws e, s')" and "vol s \<noteq> 0"
  shows "(\<exists>msg. e = QLError msg) \<and> market.truncate s' \<noteq> market.truncate s"
  using perturb_vol_Throws[OF refl assms(1)] assms(2) by (auto simp: market.truncate_def)

lemma perturb_date_leak:
  assumes "perturb_date ev eng c (evaluationDate s) s = Some (Throws e, s')"
  shows "(\<exists>msg. e = QLError msg) \<and> market.truncate s' \<noteq> market.truncate s"
  using perturb_date_Throws[OF assms(1)] by (auto simp: market.truncate_def)

text \<open>
  C7, as the code has it. A perturbation restores its field only when its pricing calls
  return: it then leaves the market as it was. When a pricing call raises, the error
  leaves the perturbation at once and the market stays perturbed; nothing in the test
  writes the saved value back on that path.
\<close>

theorem probes_restore_only_on_return:
  assumes "probe = perturb_spot eng c (spot s) \<or> probe = perturb_rate eng c (rRate s) \<or>
      probe = perturb_vol eng c (vol s) \<or> probe = perturb_date ev eng c (evaluationDate s)"
    and "probe s = Some (out, s')"
    and "spot s \<noteq> 0" and "rRate s \<noteq> 0" and "vol s \<noteq> 0"
  shows "(out = Returns () \<and> market.truncate s' = market.truncate s) \<or>
     ((\<exists>msg. out = Throws (QLError msg)) \<and> market.truncate s' \<noteq> market.truncate s)"
proof (cases out)
  case (Returns x)
  with assms(1,2) have "market.truncate s' = market.truncate s"
    by (auto dest: perturb_spot_market perturb_rate_market perturb_vol_market perturb_date_market)
  with Returns show ?thesis by simp
next
  case (Throws e)
  with assms have "(\<exists>msg. e = QLError msg) \<and> market.truncate s' \<noteq> market.truncate s"
    by (auto dest: perturb_spot_leak perturb_rate_leak perturb_vol_leak perturb_date_leak)
  with Throws show ?thesis by simp
qed

theorem probes_restore_only_on_return_witness:
  "\<exists>out s'.
     (perturb_spot capped_engine example_contract (spot quoted_state)
        = perturb_spot capped_engine example_contract (spot quoted_state) \<or>
      perturb_spot capped_engine example_contract (spot quoted_state)
        = perturb_rate capped_engine example_contract (rRate quoted_state) \<or>
      perturb_spot capped_engine example_contract (spot quoted_state)
        = perturb_vol capped_engine example_contract (vol quoted_state) \<or>
      perturb_spot capped_engine example_contract (spot quoted_state)
        = perturb_date example_env capped_engine example_contract (evaluationDate quoted_state)) \<and>
     perturb_spot capped_engine example_contract (spot quoted_state) quoted_state
       = Some (out, s') \<and>
     spot quoted_state \<noteq> 0 \<and> rRate quoted_state \<noteq> 0 \<and> vol quoted_state \<noteq> 0 \<and>
     ((out = Returns () \<and> market.truncate s' = market.truncate quoted_state) \<or>
      ((\<exists>msg. out = Throws (QLError msg)) \<and>
        market.truncate s' \<noteq> market.truncate quoted_state))"
proof -
  have u: "spot quoted_state = 100" by (simp add: example_defs)
  obtain out s' where run: "perturb_spot capped_engine example_contract (spot quoted_state)
      quoted_state = Some (out, s')"
    using capped_spot_run unfolding u by blast
  have which: "perturb_spot capped_engine example_contract (spot quoted_state)
        = perturb_spot capped_engine example_contract (spot quoted_state) \<or>
      perturb_spot capped_engine example_contract (spot quoted_state)
        = perturb_rate capped_engine example_contract (rRate quoted_state) \<or>
      perturb_spot capped_engine example_contract (spot quoted_state)
        = perturb_vol capped_engine example_contract (vol quoted_state) \<or>
      perturb_spot capped_engine example_contract (spot quoted_state)
        = perturb_date example_env capped_engine example_contract (evaluationDate quoted_state)"
    by simp
  have nz: "spot quoted_state \<noteq> 0" "rRate quoted_state \<noteq> 0" "vol quoted_state \<noteq> 0"
    by (simp_all add: example_defs)
  note concl = probes_restore_only_on_return[OF which run nz]
  show ?thesis
    by (rule exI[of _ out], rule exI[of _ s']) (use which run nz concl in blast)
qed

theorem probe_failure_leaks_counterexample:
  "spot quoted_state = 100 \<and>
   perturb_spot capped_engine example_contract 100 quoted_state =
     Some (Throws (QLError ''spot out of range''),
       quoted_state\<lparr>spot := 10001 / 100,
         requests := [(QNPV, example_contract,
           \<lparr>spot = 10001 / 100, qRate = 0, rRate = 1 / 100, vol = 1 / 20,
             evaluationDate = 1000\<rparr>)]\<rparr>) \<and>
   spot (quoted_state\<lparr>spot := 10001 / 100,
         requests := [(QNPV, example_contract,
           \<lparr>spot = 10001 / 100, qRate = 0, rRate = 1 / 100, vol = 1 / 20,
             evaluationDate = 1000\<rparr>)]\<rparr>) = 10001 / 100"
  using capped_spot_run by (simp add: quoted_state_def)

section \<open>The guard\<close>

text \<open>
  C4, as the code has it. With the six analytic calls returning, a grid point is skipped
  exactly when the base value is not greater than \<open>spot * 1e-5\<close>, a value equal to the
  threshold included: it then returns at once. When the value is greater, the grid point
  goes on with the four perturbations and the comparison.
\<close>

theorem guard_skips_unless_value_exceeds:
  assumes "NPV eng \<lparr>spot = u, qRate = q, rRate = r, vol = v, evaluationDate = evaluationDate s\<rparr> c = Inr value"
    and "delta eng \<lparr>spot = u, qRate = q, rRate = r, vol = v, evaluationDate = evaluationDate s\<rparr> c = Inr de"
    and "gamma eng \<lparr>spot = u, qRate = q, rRate = r, vol = v, evaluationDate = evaluationDate s\<rparr> c = Inr ga"
    and "theta eng \<lparr>spot = u, qRate = q, rRate = r, vol = v, evaluationDate = evaluationDate s\<rparr> c = Inr th"
    and "rho eng \<lparr>spot = u, qRate = q, rRate = r, vol = v, evaluationDate = evaluationDate s\<rparr> c = Inr rh"
    and "vega eng \<lparr>spot = u, qRate = q, rRate = r, vol = v, evaluationDate = evaluationDate s\<rparr> c = Inr ve"
  shows "grid_point ev eng c today u q r v s =
     (let m0 = \<lparr>spot = u, qRate = q, rRate = r, vol = v, evaluationDate = evaluationDate s\<rparr>;
          s0 = s\<lparr>spot := u, qRate := q, rRate := r, vol := v,
            requests := requests s @ [(QNPV, c, m0), (QDelta, c, m0), (QGamma, c, m0),
              (QTheta, c, m0), (QRho, c, m0), (QVega, c, m0)],
            calculated := map_assign ''vega'' ve (map_assign ''rho'' rh (map_assign ''theta'' th
              (map_assign ''gamma'' ga (map_assign ''delta'' de (calculated s)))))\<rparr>
      in if value \<le> u * (1 / 100000)
         then Some (Returns (), s0)
         else then_do (perturb_spot eng c u) (\<lambda>_.
              then_do (perturb_rate eng c r) (\<lambda>_.
              then_do (perturb_vol eng c v) (\<lambda>_.
              then_do (perturb_date ev eng c today) (\<lambda>_.
              compare c u q r today v)))) s0)"
proof (cases "value > u * (1 / 100000)")
  case True
  then have "\<not> value \<le> u * (1 / 100000)" by simp
  with True show ?thesis
    using grid_point_compared[OF assms, of ev today] by (simp only: Let_def if_True if_False)
next
  case False
  then have "value \<le> u * (1 / 100000)" by simp
  with False show ?thesis
    using grid_point_compared[OF assms, of ev today] by (simp only: Let_def if_True if_False)
qed

lemma threshold_run:
  "grid_point example_env (constant_engine (1 / 1000) 1) example_contract 1000 100 0
     (1 / 100) (1 / 20) fresh_state =
   Some (Returns (),
     fresh_state\<lparr>spot := 100, qRate := 0, rRate := 1 / 100, vol := 1 / 20,
       requests := [(QNPV, example_contract, \<lparr>spot = 100, qRate = 0, rRate = 1 / 100, vol = 1 / 20, evaluationDate = 1000\<rparr>), (QDelta, example_contract, \<lparr>spot = 100, qRate = 0, rRate = 1 / 100, vol = 1 / 20, evaluationDate = 1000\<rparr>), (QGamma, example_contract, \<lparr>spot = 100, qRate = 0, rRate = 1 / 100, vol = 1 / 20, evaluationDate = 1000\<rparr>),
              (QTheta, example_contract, \<lparr>spot = 100, qRate = 0, rRate = 1 / 100, vol = 1 / 20, evaluationDate = 1000\<rparr>), (QRho, example_contract, \<lparr>spot = 100, qRate = 0, rRate = 1 / 100, vol = 1 / 20, evaluationDate = 1000\<rparr>), (QVega, example_contract, \<lparr>spot = 100, qRate = 0, rRate = 1 / 100, vol = 1 / 20, evaluationDate = 1000\<rparr>)],
       calculated := [(''delta'', 1), (''gamma'', 1), (''rho'', 1), (''theta'', 1),
         (''vega'', 1)]\<rparr>)"
  by (simp add: grid_point_def prim_defs example_defs market.truncate_def)

theorem guard_skips_witness:
  "NPV (constant_engine (1 / 1000) 1) \<lparr>spot = 100, qRate = 0, rRate = 1 / 100, vol = 1 / 20, evaluationDate = evaluationDate fresh_state\<rparr> example_contract = Inr (1 / 1000) \<and>
     delta (constant_engine (1 / 1000) 1) \<lparr>spot = 100, qRate = 0, rRate = 1 / 100, vol = 1 / 20, evaluationDate = evaluationDate fresh_state\<rparr> example_contract = Inr 1 \<and>
     gamma (constant_engine (1 / 1000) 1) \<lparr>spot = 100, qRate = 0, rRate = 1 / 100, vol = 1 / 20, evaluationDate = evaluationDate fresh_state\<rparr> example_contract = Inr 1 \<and>
     theta (constant_engine (1 / 1000) 1) \<lparr>spot = 100, qRate = 0, rRate = 1 / 100, vol = 1 / 20, evaluationDate = evaluationDate fresh_state\<rparr> example_contract = Inr 1 \<and>
     rho (constant_engine (1 / 1000) 1) \<lparr>spot = 100, qRate = 0, rRate = 1 / 100, vol = 1 / 20, evaluationDate = evaluationDate fresh_state\<rparr> example_contract = Inr 1 \<and>
     vega (constant_engine (1 / 1000) 1) \<lparr>spot = 100, qRate = 0, rRate = 1 / 100, vol = 1 / 20, evaluationDate = evaluationDate fresh_state\<rparr> example_contract = Inr 1 \<and>
     grid_point example_env (constant_engine (1 / 1000) 1) example_contract 1000 100 0
       (1 / 100) (1 / 20) fresh_state =
     (let m0 = \<lparr>spot = 100, qRate = 0, rRate = 1 / 100, vol = 1 / 20, evaluationDate = evaluationDate fresh_state\<rparr>;
          s0 = fresh_state\<lparr>spot := 100, qRate := 0, rRate := 1 / 100, vol := 1 / 20,
            requests := requests fresh_state @ [(QNPV, example_contract, m0),
              (QDelta, example_contract, m0), (QGamma, example_contract, m0),
              (QTheta, example_contract, m0), (QRho, example_contract, m0),
              (QVega, example_contract, m0)],
            calculated := map_assign ''vega'' 1 (map_assign ''rho'' 1 (map_assign ''theta'' 1
              (map_assign ''gamma'' 1 (map_assign ''delta'' 1 (calculated fresh_state)))))\<rparr>
      in if (1 / 1000 :: real) \<le> 100 * (1 / 100000)
         then Some (Returns (), s0)
         else then_do (perturb_spot (constant_engine (1 / 1000) 1) example_contract 100) (\<lambda>_.
              then_do (perturb_rate (constant_engine (1 / 1000) 1) example_contract (1 / 100)) (\<lambda>_.
              then_do (perturb_vol (constant_engine (1 / 1000) 1) example_contract (1 / 20)) (\<lambda>_.
              then_do (perturb_date example_env (constant_engine (1 / 1000) 1) example_contract 1000) (\<lambda>_.
              compare example_contract 100 0 (1 / 100) 1000 (1 / 20))))) s0)"
proof -
  have six: "NPV (constant_engine (1 / 1000) 1) \<lparr>spot = 100, qRate = 0, rRate = 1 / 100, vol = 1 / 20, evaluationDate = evaluationDate fresh_state\<rparr> example_contract = Inr (1 / 1000)"
    "delta (constant_engine (1 / 1000) 1) \<lparr>spot = 100, qRate = 0, rRate = 1 / 100, vol = 1 / 20, evaluationDate = evaluationDate fresh_state\<rparr> example_contract = Inr 1"
    "gamma (constant_engine (1 / 1000) 1) \<lparr>spot = 100, qRate = 0, rRate = 1 / 100, vol = 1 / 20, evaluationDate = evaluationDate fresh_state\<rparr> example_contract = Inr 1"
    "theta (constant_engine (1 / 1000) 1) \<lparr>spot = 100, qRate = 0, rRate = 1 / 100, vol = 1 / 20, evaluationDate = evaluationDate fresh_state\<rparr> example_contract = Inr 1"
    "rho (constant_engine (1 / 1000) 1) \<lparr>spot = 100, qRate = 0, rRate = 1 / 100, vol = 1 / 20, evaluationDate = evaluationDate fresh_state\<rparr> example_contract = Inr 1"
    "vega (constant_engine (1 / 1000) 1) \<lparr>spot = 100, qRate = 0, rRate = 1 / 100, vol = 1 / 20, evaluationDate = evaluationDate fresh_state\<rparr> example_contract = Inr 1"
    by (simp_all add: constant_engine_def)
  note concl = guard_skips_unless_value_exceeds[OF six, of example_env 1000]
  show ?thesis using six concl by blast
qed

theorem guard_at_threshold_counterexample:
  "NPV (constant_engine (1 / 1000) 1) \<lparr>spot = 100, qRate = 0, rRate = 1 / 100, vol = 1 / 20, evaluationDate = 1000\<rparr> example_contract = Inr (1 / 1000) \<and>
   \<not> ((1 / 1000 :: real) < 100 * (1 / 100000)) \<and>
   grid_point example_env (constant_engine (1 / 1000) 1) example_contract 1000 100 0
     (1 / 100) (1 / 20) fresh_state =
   Some (Returns (),
     fresh_state\<lparr>spot := 100, qRate := 0, rRate := 1 / 100, vol := 1 / 20,
       requests := [(QNPV, example_contract, \<lparr>spot = 100, qRate = 0, rRate = 1 / 100, vol = 1 / 20, evaluationDate = 1000\<rparr>), (QDelta, example_contract, \<lparr>spot = 100, qRate = 0, rRate = 1 / 100, vol = 1 / 20, evaluationDate = 1000\<rparr>), (QGamma, example_contract, \<lparr>spot = 100, qRate = 0, rRate = 1 / 100, vol = 1 / 20, evaluationDate = 1000\<rparr>),
              (QTheta, example_contract, \<lparr>spot = 100, qRate = 0, rRate = 1 / 100, vol = 1 / 20, evaluationDate = 1000\<rparr>), (QRho, example_contract, \<lparr>spot = 100, qRate = 0, rRate = 1 / 100, vol = 1 / 20, evaluationDate = 1000\<rparr>), (QVega, example_contract, \<lparr>spot = 100, qRate = 0, rRate = 1 / 100, vol = 1 / 20, evaluationDate = 1000\<rparr>)],
       calculated := [(''delta'', 1), (''gamma'', 1), (''rho'', 1), (''theta'', 1),
         (''vega'', 1)]\<rparr>)"
  using threshold_run by (simp add: constant_engine_def)

section \<open>What is asked of the engine\<close>

lemma perturb_spot_frame: "\<exists>out s' rest. perturb_spot eng c u s = Some (out, s') \<and> requests s' = requests s @ rest \<and> calculated s' = calculated s"
  by (simp add: perturb_spot_def prim_defs Let_def split: sum.splits)

lemma perturb_rate_frame: "\<exists>out s' rest. perturb_rate eng c r s = Some (out, s') \<and> requests s' = requests s @ rest \<and> calculated s' = calculated s"
  by (simp add: perturb_rate_def prim_defs Let_def split: sum.splits)

lemma perturb_vol_frame: "\<exists>out s' rest. perturb_vol eng c v s = Some (out, s') \<and> requests s' = requests s @ rest \<and> calculated s' = calculated s"
  by (simp add: perturb_vol_def prim_defs Let_def split: sum.splits)

lemma perturb_date_frame: "\<exists>out s' rest. perturb_date ev eng c today s = Some (out, s') \<and> requests s' = requests s @ rest \<and> calculated s' = calculated s"
  by (simp add: perturb_date_def prim_defs Let_def split: sum.splits)

lemma check_greek_total: "\<exists>out. check_greek c u q r today v g s = Some (out, s)"
  by (simp add: check_greek_def Let_def REPORT_FAILURE_def BOOST_FAIL_def throw_def ret_def)

lemma for_each_check_total:
  "\<exists>out. for_each gs (check_greek c u q r today v) s = Some (out, s)"
proof (induction gs)
  case Nil
  then show ?case by (simp add: ret_def)
next
  case (Cons g gs)
  from check_greek_total[of c u q r today v g s] obtain o1 where
    "check_greek c u q r today v g s = Some (o1, s)" by blast
  with Cons show ?case by (cases o1) (auto simp: then_do_def)
qed

lemma compare_frame: "\<exists>out s' rest. compare c u q r today v s = Some (out, s') \<and> requests s' = requests s @ rest \<and> calculated s' = calculated s"
  using for_each_check_total[of "map fst (calculated s)" c u q r today v s]
  by (auto simp: compare_def)

lemma then_do_frame:
  assumes "\<And>s. \<exists>out s' rest. m s = Some (out, s') \<and> requests s' = requests s @ rest \<and> calculated s' = calculated s"
    and "\<And>x s. \<exists>out s' rest. f x s = Some (out, s') \<and> requests s' = requests s @ rest \<and> calculated s' = calculated s"
  shows "\<exists>out s' rest. then_do m f s = Some (out, s') \<and> requests s' = requests s @ rest \<and> calculated s' = calculated s"
proof -
  from assms(1)[of s] obtain o1 s1 r1 where
    1: "m s = Some (o1, s1)" "requests s1 = requests s @ r1" "calculated s1 = calculated s"
    by blast
  show ?thesis
  proof (cases o1)
    case (Throws e)
    with 1 show ?thesis by (simp add: then_do_def)
  next
    case (Returns x)
    from assms(2)[of x s1] obtain o2 s2 r2 where
      2: "f x s1 = Some (o2, s2)" "requests s2 = requests s1 @ r2" "calculated s2 = calculated s1"
      by blast
    with 1 Returns show ?thesis by (simp add: then_do_def)
  qed
qed

lemma probes_and_compare_frame:
  "\<exists>out s' rest. (then_do (perturb_spot eng c u) (\<lambda>_.
              then_do (perturb_rate eng c r) (\<lambda>_.
              then_do (perturb_vol eng c v) (\<lambda>_.
              then_do (perturb_date ev eng c today) (\<lambda>_.
              compare c u q r today v))))) s = Some (out, s') \<and> requests s' = requests s @ rest \<and> calculated s' = calculated s"
  by (intro then_do_frame perturb_spot_frame perturb_rate_frame perturb_vol_frame
      perturb_date_frame compare_frame)

text \<open>
  C10. At a grid point whose six analytic calls return, the value and the five Greeks
  are requested from the engine under the base market and the Greeks are stored in
  \<open>calculated\<close>, whatever the value is: these six requests come first, before the guard
  is looked at. A value at or below \<open>spot * 1e-5\<close> only means that nothing is requested
  after them and the grid point returns.
\<close>

theorem analytic_evaluation_unconditional:
  assumes "NPV eng \<lparr>spot = u, qRate = q, rRate = r, vol = v, evaluationDate = evaluationDate s\<rparr> c = Inr value"
    and "delta eng \<lparr>spot = u, qRate = q, rRate = r, vol = v, evaluationDate = evaluationDate s\<rparr> c = Inr de"
    and "gamma eng \<lparr>spot = u, qRate = q, rRate = r, vol = v, evaluationDate = evaluationDate s\<rparr> c = Inr ga"
    and "theta eng \<lparr>spot = u, qRate = q, rRate = r, vol = v, evaluationDate = evaluationDate s\<rparr> c = Inr th"
    and "rho eng \<lparr>spot = u, qRate = q, rRate = r, vol = v, evaluationDate = evaluationDate s\<rparr> c = Inr rh"
    and "vega eng \<lparr>spot = u, qRate = q, rRate = r, vol = v, evaluationDate = evaluationDate s\<rparr> c = Inr ve"
  shows "\<exists>out s' rest.
     grid_point ev eng c today u q r v s = Some (out, s') \<and>
     requests s' = requests s @
       [(QNPV, c, \<lparr>spot = u, qRate = q, rRate = r, vol = v, evaluationDate = evaluationDate s\<rparr>),
        (QDelta, c, \<lparr>spot = u, qRate = q, rRate = r, vol = v, evaluationDate = evaluationDate s\<rparr>),
        (QGamma, c, \<lparr>spot = u, qRate = q, rRate = r, vol = v, evaluationDate = evaluationDate s\<rparr>),
        (QTheta, c, \<lparr>spot = u, qRate = q, rRate = r, vol = v, evaluationDate = evaluationDate s\<rparr>),
        (QRho, c, \<lparr>spot = u, qRate = q, rRate = r, vol = v, evaluationDate = evaluationDate s\<rparr>),
        (QVega, c, \<lparr>spot = u, qRate = q, rRate = r, vol = v, evaluationDate = evaluationDate s\<rparr>)] @ rest \<and>
     calculated s' = map_assign ''vega'' ve (map_assign ''rho'' rh (map_assign ''theta'' th
              (map_assign ''gamma'' ga (map_assign ''delta'' de (calculated s))))) \<and>
     (value \<le> u * (1 / 100000) \<longrightarrow> rest = [] \<and> out = Returns ())"
proof -
  define m0 where "m0 = \<lparr>spot = u, qRate = q, rRate = r, vol = v, evaluationDate = evaluationDate s\<rparr>"
  define s0 where "s0 = s\<lparr>spot := u, qRate := q, rRate := r, vol := v,
            requests := requests s @ [(QNPV, c, m0), (QDelta, c, m0), (QGamma, c, m0),
              (QTheta, c, m0), (QRho, c, m0), (QVega, c, m0)],
            calculated := map_assign ''vega'' ve (map_assign ''rho'' rh (map_assign ''theta'' th
              (map_assign ''gamma'' ga (map_assign ''delta'' de (calculated s)))))\<rparr>"
  have unfolded: "grid_point ev eng c today u q r v s =
      (if value > u * (1 / 100000)
       then (then_do (perturb_spot eng c u) (\<lambda>_.
              then_do (perturb_rate eng c r) (\<lambda>_.
              then_do (perturb_vol eng c v) (\<lambda>_.
              then_do (perturb_date ev eng c today) (\<lambda>_.
              compare c u q r today v))))) s0
       else Some (Returns (), s0))"
    using grid_point_compared[OF assms, of ev today]
    by (simp only: Let_def s0_def m0_def)
  show ?thesis
  proof (cases "value > u * (1 / 100000)")
    case False
    with unfolded have "grid_point ev eng c today u q r v s = Some (Returns (), s0)"
      by (simp only: if_False)
    then show ?thesis
      by (intro exI[of _ "Returns ()"] exI[of _ s0] exI[of _ "[]"])
         (simp add: s0_def m0_def)
  next
    case True
    from probes_and_compare_frame[of eng c u r v ev today q s0] obtain out s' rest where
      f: "(then_do (perturb_spot eng c u) (\<lambda>_.
              then_do (perturb_rate eng c r) (\<lambda>_.
              then_do (perturb_vol eng c v) (\<lambda>_.
              then_do (perturb_date ev eng c today) (\<lambda>_.
              compare c u q r today v))))) s0 = Some (out, s')"
        "requests s' = requests s0 @ rest" "calculated s' = calculated s0"
      by blast
    from unfolded True f(1) have "grid_point ev eng c today u q r v s = Some (out, s')"
      by (simp only: if_True)
    with f(2,3) True show ?thesis
      by (intro exI[of _ out] exI[of _ s'] exI[of _ rest])
         (simp add: s0_def m0_def)
  qed
qed

theorem analytic_evaluation_witness:
  "NPV (constant_engine 0 1) \<lparr>spot = 100, qRate = 0, rRate = 1 / 100, vol = 1 / 20, evaluationDate = evaluationDate fresh_state\<rparr> example_contract = Inr 0 \<and>
     delta (constant_engine 0 1) \<lparr>spot = 100, qRate = 0, rRate = 1 / 100, vol = 1 / 20, evaluationDate = evaluationDate fresh_state\<rparr> example_contract = Inr 1 \<and>
     gamma (constant_engine 0 1) \<lparr>spot = 100, qRate = 0, rRate = 1 / 100, vol = 1 / 20, evaluationDate = evaluationDate fresh_state\<rparr> example_contract = Inr 1 \<and>
     theta (constant_engine 0 1) \<lparr>spot = 100, qRate = 0, rRate = 1 / 100, vol = 1 / 20, evaluationDate = evaluationDate fresh_state\<rparr> example_contract = Inr 1 \<and>
     rho (constant_engine 0 1) \<lparr>spot = 100, qRate = 0, rRate = 1 / 100, vol = 1 / 20, evaluationDate = evaluationDate fresh_state\<rparr> example_contract = Inr 1 \<and>
     vega (constant_engine 0 1) \<lparr>spot = 100, qRate = 0, rRate = 1 / 100, vol = 1 / 20, evaluationDate = evaluationDate fresh_state\<rparr> example_contract = Inr 1 \<and>
   (\<exists>out s' rest.
     grid_point example_env (constant_engine 0 1) example_contract 1000 100 0 (1 / 100) (1 / 20)
       fresh_state = Some (out, s') \<and>
     requests s' = requests fresh_state @
       [(QNPV, example_contract, \<lparr>spot = 100, qRate = 0, rRate = 1 / 100, vol = 1 / 20, evaluationDate = evaluationDate fresh_state\<rparr>),
        (QDelta, example_contract, \<lparr>spot = 100, qRate = 0, rRate = 1 / 100, vol = 1 / 20, evaluationDate = evaluationDate fresh_state\<rparr>),
        (QGamma, example_contract, \<lparr>spot = 100, qRate = 0, rRate = 1 / 100, vol = 1 / 20, evaluationDate = evaluationDate fresh_state\<rparr>),
        (QTheta, example_contract, \<lparr>spot = 100, qRate = 0, rRate = 1 / 100, vol = 1 / 20, evaluationDate = evaluationDate fresh_state\<rparr>),
        (QRho, example_contract, \<lparr>spot = 100, qRate = 0, rRate = 1 / 100, vol = 1 / 20, evaluationDate = evaluationDate fresh_state\<rparr>),
        (QVega, example_contract, \<lparr>spot = 100, qRate = 0, rRate = 1 / 100, vol = 1 / 20, evaluationDate = evaluationDate fresh_state\<rparr>)] @ rest \<and>
     calculated s' = map_assign ''vega'' 1 (map_assign ''rho'' 1 (map_assign ''theta'' 1
              (map_assign ''gamma'' 1 (map_assign ''delta'' 1 (calculated fresh_state))))) \<and>
     ((0 :: real) \<le> 100 * (1 / 100000) \<and> rest = [] \<and> out = Returns ()))"
proof -
  have six: "NPV (constant_engine 0 1) \<lparr>spot = 100, qRate = 0, rRate = 1 / 100, vol = 1 / 20, evaluationDate = evaluationDate fresh_state\<rparr> example_contract = Inr 0"
    "delta (constant_engine 0 1) \<lparr>spot = 100, qRate = 0, rRate = 1 / 100, vol = 1 / 20, evaluationDate = evaluationDate fresh_state\<rparr> example_contract = Inr 1"
    "gamma (constant_engine 0 1) \<lparr>spot = 100, qRate = 0, rRate = 1 / 100, vol = 1 / 20, evaluationDate = evaluationDate fresh_state\<rparr> example_contract = Inr 1"
    "theta (constant_engine 0 1) \<lparr>spot = 100, qRate = 0, rRate = 1 / 100, vol = 1 / 20, evaluationDate = evaluationDate fresh_state\<rparr> example_contract = Inr 1"
    "rho (constant_engine 0 1) \<lparr>spot = 100, qRate = 0, rRate = 1 / 100, vol = 1 / 20, evaluationDate = evaluationDate fresh_state\<rparr> example_contract = Inr 1"
    "vega (constant_engine 0 1) \<lparr>spot = 100, qRate = 0, rRate = 1 / 100, vol = 1 / 20, evaluationDate = evaluationDate fresh_state\<rparr> example_contract = Inr 1"
    by (simp_all add: constant_engine_def)
  have small: "(0 :: real) \<le> 100 * (1 / 100000)" by simp
  note concl = analytic_evaluation_unconditional[OF six, of example_env 1000]
  show ?thesis using six small concl by blast
qed

section \<open>The comparison at a grid point\<close>

lemma tolerance_five:
  "g \<in> {''delta'', ''gamma'', ''theta'', ''rho'', ''vega''} \<Longrightarrow> map_at tolerance g = 1 / 100000"
  by (auto simp: tolerance_def map_at_def)

lemma stored_greeks:
  assumes "m = [] \<or> map fst m = greeks"
  shows "map_assign ''vega'' ve (map_assign ''rho'' rh (map_assign ''theta'' th
      (map_assign ''gamma'' ga (map_assign ''delta'' de m))))
    = [(''delta'', de), (''gamma'', ga), (''rho'', rh), (''theta'', th), (''vega'', ve)]"
  using assms by (auto simp: greeks_def map_eq_Cons_conv)

lemma for_each_check_find:
  "for_each gs (check_greek c u q r today v) s =
     (case find (\<lambda>g. relativeError (map_at (expected s) g) (map_at (calculated s) g) u
                    > map_at tolerance g) gs of
        None \<Rightarrow> Some (Returns (), s)
      | Some g \<Rightarrow> Some (Throws (BoostFail \<lparr> f_exercise = European, f_optionType = optionType c,
            f_payoff = PlainVanilla, f_spot = u, f_strike = strike c,
            f_dividendYield = q, f_riskFreeRate = r, f_referenceDate = today,
            f_maturity = lastDate c, f_volatility = v, f_greekName = g,
            f_expected = map_at (expected s) g, f_calculated = map_at (calculated s) g,
            f_error = relativeError (map_at (expected s) g) (map_at (calculated s) g) u, f_tolerance = map_at tolerance g \<rparr>), s))"
  by (induction gs)
     (simp_all add: check_greek_def Let_def REPORT_FAILURE_def BOOST_FAIL_def throw_def ret_def
       then_do_def)

lemma grid_point_calculated:
  assumes run: "grid_point ev eng c today u q r v s = Some (out, s')"
    and six: "NPV eng \<lparr>spot = u, qRate = q, rRate = r, vol = v, evaluationDate = evaluationDate s\<rparr> c = Inr value"
      "delta eng \<lparr>spot = u, qRate = q, rRate = r, vol = v, evaluationDate = evaluationDate s\<rparr> c = Inr de"
      "gamma eng \<lparr>spot = u, qRate = q, rRate = r, vol = v, evaluationDate = evaluationDate s\<rparr> c = Inr ga"
      "theta eng \<lparr>spot = u, qRate = q, rRate = r, vol = v, evaluationDate = evaluationDate s\<rparr> c = Inr th"
      "rho eng \<lparr>spot = u, qRate = q, rRate = r, vol = v, evaluationDate = evaluationDate s\<rparr> c = Inr rh"
      "vega eng \<lparr>spot = u, qRate = q, rRate = r, vol = v, evaluationDate = evaluationDate s\<rparr> c = Inr ve"
  shows "calculated s' = map_assign ''vega'' ve (map_assign ''rho'' rh (map_assign ''theta'' th
      (map_assign ''gamma'' ga (map_assign ''delta'' de (calculated s)))))"
proof -
  define s0 where "s0 = s\<lparr>spot := u, qRate := q, rRate := r, vol := v,
            requests := requests s @ [(QNPV, c, \<lparr>spot = u, qRate = q, rRate = r, vol = v, evaluationDate = evaluationDate s\<rparr>), (QDelta, c, \<lparr>spot = u, qRate = q, rRate = r, vol = v, evaluationDate = evaluationDate s\<rparr>), (QGamma, c, \<lparr>spot = u, qRate = q, rRate = r, vol = v, evaluationDate = evaluationDate s\<rparr>),
              (QTheta, c, \<lparr>spot = u, qRate = q, rRate = r, vol = v, evaluationDate = evaluationDate s\<rparr>), (QRho, c, \<lparr>spot = u, qRate = q, rRate = r, vol = v, evaluationDate = evaluationDate s\<rparr>), (QVega, c, \<lparr>spot = u, qRate = q, rRate = r, vol = v, evaluationDate = evaluationDate s\<rparr>)],
            calculated := map_assign ''vega'' ve (map_assign ''rho'' rh (map_assign ''theta'' th
              (map_assign ''gamma'' ga (map_assign ''delta'' de (calculated s)))))\<rparr>"
  have unfolded: "grid_point ev eng c today u q r v s =
      (if value > u * (1 / 100000)
       then (then_do (perturb_spot eng c u) (\<lambda>_.
              then_do (perturb_rate eng c r) (\<lambda>_.
              then_do (perturb_vol eng c v) (\<lambda>_.
              then_do (perturb_date ev eng c today) (\<lambda>_.
              compare c u q r today v))))) s0
       else Some (Returns (), s0))"
    using grid_point_compared[OF six, of ev today]
    by (simp only: Let_def s0_def)
  have c0: "calculated s0 = map_assign ''vega'' ve (map_assign ''rho'' rh (map_assign ''theta'' th
      (map_assign ''gamma'' ga (map_assign ''delta'' de (calculated s)))))"
    by (simp add: s0_def)
  show ?thesis
  proof (cases "value > u * (1 / 100000)")
    case False
    with unfolded run have "s' = s0" by simp
    with c0 show ?thesis by simp
  next
    case True
    from probes_and_compare_frame[of eng c u r v ev today q s0] obtain out2 s2 rest where
      f: "(then_do (perturb_spot eng c u) (\<lambda>_.
              then_do (perturb_rate eng c r) (\<lambda>_.
              then_do (perturb_vol eng c v) (\<lambda>_.
              then_do (perturb_date ev eng c today) (\<lambda>_.
              compare c u q r today v))))) s0 = Some (out2, s2)" "calculated s2 = calculated s0"
      by blast
    from unfolded True f(1) run have "s' = s2" by simp
    with f(2) c0 show ?thesis by simp
  qed
qed

section \<open>The dividend schedule is finite and lies before the exercise\<close>

lemma example_schedule:
  "dividend_schedule example_env 1000 1360 = Some ([1090, 1270], [5, 5])"
  by (simp add: dividend_schedule_def dividend_loop.simps example_env_def)

lemma funpow_increasing:
  fixes f :: "int \<Rightarrow> int"
  assumes "\<forall>d. d < f d"
  shows "i < j \<Longrightarrow> (f ^^ i) d < (f ^^ j) d"
proof (induction j)
  case 0
  then show ?case by simp
next
  case (Suc j)
  have step: "(f ^^ j) d < (f ^^ Suc j) d" using assms by simp
  show ?case
  proof (cases "i = j")
    case True
    with step show ?thesis by simp
  next
    case False
    with Suc.prems have "i < j" by simp
    with Suc.IH step show ?thesis by simp
  qed
qed

lemma dividend_loop_run:
  assumes adv: "\<forall>d. d < plusMonths ev d 6"
  shows "\<exists>n. dividend_loop ev d exDate dates divs =
        Some (dates @ map (\<lambda>i. ((\<lambda>d. plusMonths ev d 6) ^^ i) d) [0..<n], divs @ replicate n 5) \<and>
      (\<forall>i<n. ((\<lambda>d. plusMonths ev d 6) ^^ i) d < exDate) \<and>
      \<not> ((\<lambda>d. plusMonths ev d 6) ^^ n) d < exDate"
proof (induction "nat (exDate - d)" arbitrary: d dates divs rule: less_induct)
  case less
  let ?f = "\<lambda>d. plusMonths ev d 6"
  show ?case
  proof (cases "d < exDate")
    case False
    then have "dividend_loop ev d exDate dates divs = Some (dates, divs)"
      by (subst dividend_loop.simps) simp
    with False show ?thesis by (intro exI[of _ 0]) simp
  next
    case True
    have "d < ?f d" using adv by simp
    with True have "nat (exDate - ?f d) < nat (exDate - d)" by simp
    from less[OF this, of "dates @ [d]" "divs @ [5]"] obtain n where
      n: "dividend_loop ev (?f d) exDate (dates @ [d]) (divs @ [5]) =
          Some ((dates @ [d]) @ map (\<lambda>i. (?f ^^ i) (?f d)) [0..<n], (divs @ [5]) @ replicate n 5)"
        "\<forall>i<n. (?f ^^ i) (?f d) < exDate" "\<not> (?f ^^ n) (?f d) < exDate"
      by blast
    have unroll: "dividend_loop ev d exDate dates divs =
        dividend_loop ev (?f d) exDate (dates @ [d]) (divs @ [5])"
      using True by (subst dividend_loop.simps) simp
    have sw: "plusMonths ev ((?f ^^ i) d) 6 = (?f ^^ i) (plusMonths ev d 6)" for i
      using funpow_swap1[of ?f i d] by simp
    have m: "map (\<lambda>i. (?f ^^ i) d) [0..<Suc n] = d # map (\<lambda>i. (?f ^^ i) (?f d)) [0..<n]"
      by (simp add: map_upt_Suc sw del: upt_Suc)
    have r: "replicate (Suc n) (5::real) = 5 # replicate n 5" by simp
    have a: "\<forall>i<Suc n. (?f ^^ i) d < exDate"
    proof (intro allI impI)
      fix i assume "i < Suc n"
      show "(?f ^^ i) d < exDate"
      proof (cases i)
        case 0
        with True show ?thesis by simp
      next
        case (Suc k)
        with \<open>i < Suc n\<close> n(2) have "(?f ^^ k) (?f d) < exDate" by simp
        with Suc show ?thesis by (simp add: sw)
      qed
    qed
    have b: "\<not> (?f ^^ Suc n) d < exDate"
      using n(3) by (simp add: sw)
    show ?thesis
      apply (rule exI[of _ "Suc n"])
      unfolding unroll n(1) m r
      using a b by simp
  qed
qed

text \<open>
  C9. Under a calendar in which three months after today is later than today and six
  months after any date is later than that date, the dividend loop finishes; its dates
  are, in order, the date three months after today and the dates reached from it by
  adding six months again and again, up to the last one before the exercise date. A date
  of that sequence is in the schedule exactly when it lies before the exercise date, every
  scheduled date lies strictly between today and the exercise date, and every scheduled
  amount is 5.
\<close>

theorem dividend_schedule_dates:
  assumes "today < plusMonths ev today 3" and "\<forall>d. d < plusMonths ev d 6"
  shows "\<exists>n. dividend_schedule ev today exDate =
        Some (map (\<lambda>i. ((\<lambda>d. plusMonths ev d 6) ^^ i) (plusMonths ev today 3)) [0..<n],
              replicate n 5) \<and>
      (\<forall>i. ((\<lambda>d. plusMonths ev d 6) ^^ i) (plusMonths ev today 3) < exDate \<longleftrightarrow> i < n) \<and>
      (\<forall>d \<in> set (map (\<lambda>i. ((\<lambda>d. plusMonths ev d 6) ^^ i) (plusMonths ev today 3)) [0..<n]).
         today < d \<and> d < exDate)"
proof -
  let ?f = "\<lambda>d. plusMonths ev d 6"
  let ?d0 = "plusMonths ev today 3"
  from dividend_loop_run[OF assms(2), of ?d0 exDate "[]" "[]"] obtain n where
    run: "dividend_schedule ev today exDate = Some (map (\<lambda>i. (?f ^^ i) ?d0) [0..<n], replicate n 5)"
    and before: "\<forall>i<n. (?f ^^ i) ?d0 < exDate"
    and stop: "\<not> (?f ^^ n) ?d0 < exDate"
    unfolding dividend_schedule_def by auto
  have mono: "\<And>i j. i < j \<Longrightarrow> (?f ^^ i) ?d0 < (?f ^^ j) ?d0"
    using funpow_increasing[of ?f, OF assms(2)] by blast
  have iff: "\<forall>i. (?f ^^ i) ?d0 < exDate \<longleftrightarrow> i < n"
  proof (intro allI iffI)
    fix i assume lt: "(?f ^^ i) ?d0 < exDate"
    show "i < n"
    proof (rule ccontr)
      assume "\<not> i < n"
      then have "n = i \<or> n < i" by auto
      then have "(?f ^^ n) ?d0 \<le> (?f ^^ i) ?d0"
        using mono[of n i] by auto
      with lt stop show False by simp
    qed
  next
    fix i assume "i < n"
    with before show "(?f ^^ i) ?d0 < exDate" by simp
  qed
  have after: "today < (?f ^^ i) ?d0" for i
  proof (cases i)
    case 0
    with assms(1) show ?thesis by simp
  next
    case (Suc k)
    have "(?f ^^ 0) ?d0 < (?f ^^ i) ?d0" using mono[of 0 i] Suc by simp
    with assms(1) show ?thesis by simp
  qed
  have between: "\<forall>d \<in> set (map (\<lambda>i. (?f ^^ i) ?d0) [0..<n]). today < d \<and> d < exDate"
    using after before by auto
  from run iff between show ?thesis by blast
qed

theorem dividend_schedule_witness:
  "(1000 :: int) < plusMonths example_env 1000 3 \<and> (\<forall>d. d < plusMonths example_env d 6) \<and>
   dividend_schedule example_env 1000 1360 = Some ([1090, 1270], [5, 5]) \<and>
   (\<exists>n. dividend_schedule example_env 1000 1360 =
        Some (map (\<lambda>i. ((\<lambda>d. plusMonths example_env d 6) ^^ i) (plusMonths example_env 1000 3)) [0..<n],
              replicate n 5) \<and>
      (\<forall>i. ((\<lambda>d. plusMonths example_env d 6) ^^ i) (plusMonths example_env 1000 3) < 1360 \<longleftrightarrow> i < n) \<and>
      (\<forall>d \<in> set (map (\<lambda>i. ((\<lambda>d. plusMonths example_env d 6) ^^ i) (plusMonths example_env 1000 3)) [0..<n]).
         1000 < d \<and> d < 1360))"
proof -
  have a: "(1000 :: int) < plusMonths example_env 1000 3" by (simp add: example_env_def)
  have b: "\<forall>d. d < plusMonths example_env d 6" by (simp add: example_env_def)
  note concl = dividend_schedule_dates[OF a b, of 1360]
  show ?thesis using a b example_schedule concl by (intro conjI)
qed

section \<open>A reported failure\<close>

lemma for_each_Cons_Throws:
  "body x s = Some (Throws e, s') \<Longrightarrow> for_each (x # xs) body s = Some (Throws e, s')"
  by (simp add: then_do_def)

lemma biased_grid_run:
  "grid_point example_env (constant_engine 10 1) example_contract 1000 100 0 (1 / 100) (1 / 20)
     fresh_state = Some (Throws (BoostFail first_failure), aborted_state)"
  by (simp add: grid_point_def perturb_spot_def perturb_rate_def perturb_vol_def
      perturb_date_def compare_def check_greek_def relativeError_def tolerance_def
      REPORT_FAILURE_def BOOST_FAIL_def first_failure_def aborted_state_def
      map_at_def prim_defs example_defs market.truncate_def Let_def)

lemma biased_option_run:
  "option_loop example_env (constant_engine 10 1) 1000 Call 50 1 fresh_state
     = Some (Throws (BoostFail first_failure), aborted_state)"
proof -
  have c: "\<lparr>optionType = Call, strike = 50, lastDate = 1360,
       dividendDates = [1090, 1270], dividends = [5, 5]\<rparr> = example_contract"
    by (simp add: example_contract_def)
  have b: "dayCounterBase example_env = 360" by (simp add: example_env_def)
  have "for_each underlyings (\<lambda>u. for_each qRates (\<lambda>q. for_each rRates (\<lambda>r.
      for_each vols (\<lambda>v. grid_point example_env (constant_engine 10 1) example_contract
        1000 u q r v)))) fresh_state = Some (Throws (BoostFail first_failure), aborted_state)"
    unfolding underlyings_def qRates_def rRates_def vols_def
    by (intro for_each_Cons_Throws) (simp add: biased_grid_run)
  then show ?thesis
    by (simp add: option_loop_def b example_schedule c)
qed

lemma testGreeks_body_start:
  "testGreeks_body ev eng s =
     for_each types (\<lambda>ty. for_each strikes (\<lambda>k. for_each lengths (\<lambda>len.
       option_loop ev eng (todaysDate ev) ty k len))) (start ev s)"
  by (simp add: testGreeks_body_def Let_def then_do_def declare_maps_def setEvaluationDate_def
      spot_setValue_def qRate_setValue_def rRate_setValue_def vol_setValue_def start_def
      del: for_each.simps)

lemma start_fresh: "start example_env fresh_state = fresh_state"
  by (simp add: start_def fresh_state_def example_env_def)

lemma biased_sweep_run:
  "testGreeks_body example_env (constant_engine 10 1) fresh_state
     = Some (Throws (BoostFail first_failure), aborted_state)"
proof -
  have t: "todaysDate example_env = 1000" by (simp add: example_env_def)
  have "for_each types (\<lambda>ty. for_each strikes (\<lambda>k. for_each lengths (\<lambda>len.
      option_loop example_env (constant_engine 10 1) 1000 ty k len))) fresh_state
      = Some (Throws (BoostFail first_failure), aborted_state)"
    unfolding types_def strikes_def lengths_def
    by (intro for_each_Cons_Throws) (rule biased_option_run)
  then show ?thesis
    unfolding testGreeks_body_start start_fresh t .
qed

lemma for_each_Throws:
  "for_each xs body s = Some (Throws e, s') \<Longrightarrow>
     \<exists>x\<in>set xs. \<exists>s0. body x s0 = Some (Throws e, s')"
proof (induction xs arbitrary: s)
  case Nil
  then show ?case by (simp add: ret_def)
next
  case (Cons x xs)
  from Cons.prems have "then_do (body x) (\<lambda>_. for_each xs body) s = Some (Throws e, s')"
    by simp
  then show ?case
  proof (cases rule: then_do_cases)
    case (thrown e')
    then show ?thesis by auto
  next
    case (continued y s1)
    from Cons.IH[OF continued(2)] show ?thesis by auto
  qed
qed

lemma check_greek_Throws:
  assumes "check_greek c u q r today v g s = Some (Throws e, s')"
  shows "s' = s \<and>
     e = BoostFail \<lparr> f_exercise = European, f_optionType = optionType c,
         f_payoff = PlainVanilla, f_spot = u, f_strike = strike c,
         f_dividendYield = q, f_riskFreeRate = r, f_referenceDate = today,
         f_maturity = lastDate c, f_volatility = v, f_greekName = g,
         f_expected = map_at (expected s) g,
         f_calculated = map_at (calculated s) g,
         f_error = relativeError (map_at (expected s) g) (map_at (calculated s) g) u,
         f_tolerance = map_at tolerance g \<rparr> \<and>
     relativeError (map_at (expected s) g) (map_at (calculated s) g) u > map_at tolerance g"
  using assms
  by (auto simp: check_greek_def Let_def REPORT_FAILURE_def BOOST_FAIL_def throw_def ret_def
      split: if_splits)

lemma compare_Throws:
  assumes "compare c u q r today v s = Some (Throws e, s')"
  shows "\<exists>g\<in>set (map fst (calculated s')).
     e = BoostFail \<lparr> f_exercise = European, f_optionType = optionType c,
         f_payoff = PlainVanilla, f_spot = u, f_strike = strike c,
         f_dividendYield = q, f_riskFreeRate = r, f_referenceDate = today,
         f_maturity = lastDate c, f_volatility = v, f_greekName = g,
         f_expected = map_at (expected s') g,
         f_calculated = map_at (calculated s') g,
         f_error = relativeError (map_at (expected s') g) (map_at (calculated s') g) u,
         f_tolerance = map_at tolerance g \<rparr> \<and>
     relativeError (map_at (expected s') g) (map_at (calculated s') g) u > map_at tolerance g"
proof -
  from compare_state[OF assms] have eq: "s' = s" .
  from assms obtain g s0 where g: "g \<in> set (map fst (calculated s))"
    and t: "check_greek c u q r today v g s0 = Some (Throws e, s')"
    unfolding compare_def by (blast dest: for_each_Throws)
  from check_greek_Throws[OF t] have "s' = s0" by simp
  with check_greek_Throws[OF t] g eq show ?thesis by blast
qed

lemma grid_point_BoostFail:
  assumes "grid_point ev eng c today u q r v s = Some (Throws (BoostFail f), s')"
  shows "compare c u q r today v s' = Some (Throws (BoostFail f), s')"
proof -
  have ok: "\<forall>msg. Throws (BoostFail f) \<noteq> Throws (QLError msg)" by simp
  from grid_point_no_error[OF assms ok] obtain "value" de ga th rh ve where six:
    "NPV eng \<lparr>spot = u, qRate = q, rRate = r, vol = v, evaluationDate = evaluationDate s\<rparr> c = Inr value"
    "delta eng \<lparr>spot = u, qRate = q, rRate = r, vol = v, evaluationDate = evaluationDate s\<rparr> c = Inr de"
    "gamma eng \<lparr>spot = u, qRate = q, rRate = r, vol = v, evaluationDate = evaluationDate s\<rparr> c = Inr ga"
    "theta eng \<lparr>spot = u, qRate = q, rRate = r, vol = v, evaluationDate = evaluationDate s\<rparr> c = Inr th"
    "rho eng \<lparr>spot = u, qRate = q, rRate = r, vol = v, evaluationDate = evaluationDate s\<rparr> c = Inr rh"
    "vega eng \<lparr>spot = u, qRate = q, rRate = r, vol = v, evaluationDate = evaluationDate s\<rparr> c = Inr ve"
    by blast
  show ?thesis
  proof (cases "value > u * (1 / 100000)")
    case True
    from grid_point_probed[OF assms ok six(1) True] show ?thesis by blast
  next
    case False
    with grid_point_compared[OF six, of ev today] assms have False
      by (simp add: Let_def)
    then show ?thesis ..
  qed
qed

lemma option_loop_Throws:
  assumes "option_loop ev eng today ty k len s = Some (Throws e, s')"
  shows "\<exists>dates divs. \<exists>u\<in>set underlyings. \<exists>q\<in>set qRates. \<exists>r\<in>set rRates.
     \<exists>v\<in>set vols. \<exists>s0.
       dividend_schedule ev today (today + len * dayCounterBase ev) = Some (dates, divs) \<and>
       grid_point ev eng \<lparr> optionType = ty, strike = k,
           lastDate = today + len * dayCounterBase ev,
           dividendDates = dates, dividends = divs \<rparr> today u q r v s0
         = Some (Throws e, s')"
proof -
  from assms obtain dates divs where
    d: "dividend_schedule ev today (today + len * dayCounterBase ev) = Some (dates, divs)"
    and l: "for_each underlyings (\<lambda>u. for_each qRates (\<lambda>q. for_each rRates (\<lambda>r.
        for_each vols (\<lambda>v. grid_point ev eng \<lparr> optionType = ty, strike = k,
           lastDate = today + len * dayCounterBase ev,
           dividendDates = dates, dividends = divs \<rparr> today u q r v)))) s
         = Some (Throws e, s')"
    by (auto simp: option_loop_def Let_def split: option.splits simp del: for_each.simps)
  from for_each_Throws[OF l] obtain u s1 where u: "u \<in> set underlyings"
    and l1: "for_each qRates (\<lambda>q. for_each rRates (\<lambda>r.
        for_each vols (\<lambda>v. grid_point ev eng \<lparr> optionType = ty, strike = k,
           lastDate = today + len * dayCounterBase ev,
           dividendDates = dates, dividends = divs \<rparr> today u q r v))) s1
         = Some (Throws e, s')"
    by blast
  from for_each_Throws[OF l1] obtain q s2 where q: "q \<in> set qRates"
    and l2: "for_each rRates (\<lambda>r.
        for_each vols (\<lambda>v. grid_point ev eng \<lparr> optionType = ty, strike = k,
           lastDate = today + len * dayCounterBase ev,
           dividendDates = dates, dividends = divs \<rparr> today u q r v)) s2
         = Some (Throws e, s')"
    by blast
  from for_each_Throws[OF l2] obtain r s3 where r: "r \<in> set rRates"
    and l3: "for_each vols (\<lambda>v. grid_point ev eng \<lparr> optionType = ty, strike = k,
           lastDate = today + len * dayCounterBase ev,
           dividendDates = dates, dividends = divs \<rparr> today u q r v) s3
         = Some (Throws e, s')"
    by blast
  from for_each_Throws[OF l3] obtain v s4 where v: "v \<in> set vols"
    and l4: "grid_point ev eng \<lparr> optionType = ty, strike = k,
           lastDate = today + len * dayCounterBase ev,
           dividendDates = dates, dividends = divs \<rparr> today u q r v s4
         = Some (Throws e, s')"
    by blast
  from d u q r v l4 show ?thesis by blast
qed

lemma testGreeks_body_Throws:
  assumes "testGreeks_body ev eng s = Some (Throws e, s')"
  shows "\<exists>ty\<in>set types. \<exists>k\<in>set strikes. \<exists>len\<in>set lengths. \<exists>s0.
     option_loop ev eng (todaysDate ev) ty k len s0 = Some (Throws e, s')"
proof -
  from assms have l: "for_each types (\<lambda>ty. for_each strikes (\<lambda>k.
      for_each lengths (\<lambda>len. option_loop ev eng (todaysDate ev) ty k len))) (start ev s)
      = Some (Throws e, s')"
    unfolding testGreeks_body_start .
  from for_each_Throws[OF l] obtain ty s2 where ty: "ty \<in> set types"
    and l1: "for_each strikes (\<lambda>k.
      for_each lengths (\<lambda>len. option_loop ev eng (todaysDate ev) ty k len)) s2
      = Some (Throws e, s')"
    by blast
  from for_each_Throws[OF l1] obtain k s3 where k: "k \<in> set strikes"
    and l2: "for_each lengths (\<lambda>len. option_loop ev eng (todaysDate ev) ty k len) s3
      = Some (Throws e, s')"
    by blast
  from for_each_Throws[OF l2] obtain len s4 where len: "len \<in> set lengths"
    and l3: "option_loop ev eng (todaysDate ev) ty k len s4 = Some (Throws e, s')"
    by blast
  from ty k len l3 show ?thesis by blast
qed

text \<open>
  A report with which the sweep ends is the record of one Greek whose error exceeds its
  tolerance at one grid point of the sweep, and the sweep ends in the state of that grid
  point.
\<close>

lemma report_stems_from_grid_point:
  assumes "testGreeks_body ev eng s = Some (Throws (BoostFail f), s')"
  shows "(\<exists>ty\<in>set types. \<exists>k\<in>set strikes. \<exists>len\<in>set lengths. \<exists>u\<in>set underlyings.
      \<exists>q\<in>set qRates. \<exists>r\<in>set rRates. \<exists>v\<in>set vols. \<exists>g\<in>set (map fst (calculated s')).
      \<exists>dates divs s0.
        dividend_schedule ev (todaysDate ev) (todaysDate ev + len * dayCounterBase ev)
          = Some (dates, divs) \<and>
        grid_point ev eng \<lparr> optionType = ty, strike = k,
            lastDate = todaysDate ev + len * dayCounterBase ev,
            dividendDates = dates, dividends = divs \<rparr> (todaysDate ev) u q r v s0
          = Some (Throws (BoostFail f), s') \<and>
        f = \<lparr> f_exercise = European, f_optionType = ty, f_payoff = PlainVanilla,
            f_spot = u, f_strike = k, f_dividendYield = q, f_riskFreeRate = r,
            f_referenceDate = todaysDate ev,
            f_maturity = todaysDate ev + len * dayCounterBase ev,
            f_volatility = v, f_greekName = g,
            f_expected = map_at (expected s') g,
            f_calculated = map_at (calculated s') g,
            f_error = relativeError (map_at (expected s') g) (map_at (calculated s') g) u,
            f_tolerance = map_at tolerance g \<rparr> \<and>
        f_error f > f_tolerance f)"
proof -
  from testGreeks_body_Throws[OF assms] obtain ty k len s1 where
    g: "ty \<in> set types" "k \<in> set strikes" "len \<in> set lengths"
    and o: "option_loop ev eng (todaysDate ev) ty k len s1 = Some (Throws (BoostFail f), s')"
    by blast
  from option_loop_Throws[OF o] obtain dates divs u q r v s0 where
    p: "u \<in> set underlyings" "q \<in> set qRates" "r \<in> set rRates" "v \<in> set vols"
    and d: "dividend_schedule ev (todaysDate ev) (todaysDate ev + len * dayCounterBase ev)
          = Some (dates, divs)"
    and gp: "grid_point ev eng \<lparr> optionType = ty, strike = k,
            lastDate = todaysDate ev + len * dayCounterBase ev,
            dividendDates = dates, dividends = divs \<rparr> (todaysDate ev) u q r v s0
          = Some (Throws (BoostFail f), s')"
    by blast
  from compare_Throws[OF grid_point_BoostFail[OF gp]] obtain gk where
    k: "gk \<in> set (map fst (calculated s'))"
    and f: "f = \<lparr> f_exercise = European, f_optionType = ty, f_payoff = PlainVanilla,
            f_spot = u, f_strike = k, f_dividendYield = q, f_riskFreeRate = r,
            f_referenceDate = todaysDate ev,
            f_maturity = todaysDate ev + len * dayCounterBase ev,
            f_volatility = v, f_greekName = gk,
            f_expected = map_at (expected s') gk,
            f_calculated = map_at (calculated s') gk,
            f_error = relativeError (map_at (expected s') gk) (map_at (calculated s') gk) u,
            f_tolerance = map_at tolerance gk \<rparr>"
    and e: "relativeError (map_at (expected s') gk) (map_at (calculated s') gk) u
        > map_at tolerance gk"
    by auto
  from f e have fe: "f_error f > f_tolerance f" by simp
  from g p k d gp f fe show ?thesis by blast
qed

section \<open>The sweep finishes\<close>

text \<open>
  A grid point always finishes, with a result or an exception. The whole sweep finishes
  as soon as the dividend loops do, which the calendar guarantees when adding three or
  six months moves a date forward.
\<close>

lemma then_do_finishes:
  assumes "\<And>s. m s \<noteq> None" and "\<And>x s. f x s \<noteq> None"
  shows "then_do m f s \<noteq> None"
proof -
  from assms(1)[of s] obtain o1 s1 where m: "m s = Some (o1, s1)"
    by (cases "m s") auto
  show ?thesis
  proof (cases o1)
    case (Returns x)
    with m have "then_do m f s = f x s1" by (simp add: then_do_def)
    with assms(2)[of x s1] show ?thesis by simp
  next
    case (Throws e)
    with m show ?thesis by (simp add: then_do_def)
  qed
qed

lemma for_each_finishes:
  assumes "\<And>x s. body x s \<noteq> None"
  shows "for_each xs body s \<noteq> None"
proof (induction xs arbitrary: s)
  case Nil
  show ?case by (simp add: ret_def)
next
  case (Cons x xs)
  show ?case unfolding for_each.simps
    by (rule then_do_finishes) (rule assms, rule Cons.IH)
qed

lemma probes_and_compare_finishes:
  "then_do (perturb_spot eng c u) (\<lambda>_.
     then_do (perturb_rate eng c r) (\<lambda>_.
     then_do (perturb_vol eng c v) (\<lambda>_.
     then_do (perturb_date ev eng c today) (\<lambda>_.
     compare c u q r today v)))) s \<noteq> None"
  using probes_and_compare_frame[of eng c u r v ev today q s] by auto

lemma ask_finishes: "ask f qn c s \<noteq> None"
  by (simp add: ask_def)

lemma grid_point_finishes: "grid_point ev eng c today u q r v s \<noteq> None"
  unfolding grid_point_def option_NPV_def option_delta_def option_gamma_def
    option_theta_def option_rho_def option_vega_def
  apply (intro then_do_finishes ask_finishes)
  apply (simp_all add: spot_setValue_def qRate_setValue_def rRate_setValue_def vol_setValue_def
      set_calculated_def spot_value_def ret_def probes_and_compare_finishes
      del: not_None_eq)
  done

lemma option_loop_finishes:
  assumes "dividend_schedule ev today (today + len * dayCounterBase ev) \<noteq> None"
  shows "option_loop ev eng today ty k len s \<noteq> None"
proof -
  from assms obtain dates divs where
    "dividend_schedule ev today (today + len * dayCounterBase ev) = Some (dates, divs)"
    by auto
  then show ?thesis
    unfolding option_loop_def Let_def
    by (simp del: for_each.simps not_None_eq) (intro for_each_finishes grid_point_finishes)
qed

lemma testGreeks_body_finishes:
  assumes "todaysDate ev < plusMonths ev (todaysDate ev) 3" and "\<forall>d. d < plusMonths ev d 6"
  shows "testGreeks_body ev eng s \<noteq> None"
proof -
  have sched: "dividend_schedule ev (todaysDate ev) exDate \<noteq> None" for exDate
    using dividend_loop_run[OF assms(2), of "plusMonths ev (todaysDate ev) 3" exDate "[]" "[]"]
    by (auto simp: dividend_schedule_def)
  show ?thesis
    unfolding testGreeks_body_start
    by (intro for_each_finishes option_loop_finishes sched)
qed

text \<open>
  Once the body of a loop throws at one element, the elements after it are not visited.
\<close>

lemma for_each_stops:
  assumes "for_each xs body s = Some (Returns (), s0)"
    and "body x s0 = Some (Throws e, s')"
  shows "for_each (xs @ x # ys) body s = Some (Throws e, s')"
  using assms
proof (induction xs arbitrary: s)
  case Nil
  then show ?case by (simp add: ret_def then_do_def)
next
  case (Cons a xs)
  from Cons.prems(1) have "then_do (body a) (\<lambda>_. for_each xs body) s = Some (Returns (), s0)"
    by simp
  then show ?case
  proof (cases rule: then_do_cases)
    case (thrown e')
    then show ?thesis by simp
  next
    case (continued y s1)
    from Cons.IH[OF continued(2) Cons.prems(2)] continued(1)
    show ?thesis by (simp add: then_do_def)
  qed
qed

section \<open>What the comparison reports\<close>

text \<open>
  C8, as the code has it. At a grid point that is not skipped and whose pricing calls
  all return, \<open>calculated\<close> holds the five analytic Greeks and \<open>expected\<close> their
  finite-difference estimates; the error of a Greek is the relative error of the
  expected against the calculated value with the underlying \<open>u\<close>, the spot, as scale,
  that is \<open>|expected - calculated| / u\<close>, and the tolerance is \<open>1e-5\<close> for each of
  the five. The comparison goes through the Greeks in the order of their keys (delta,
  gamma, rho, theta, vega): the grid point returns silently exactly when no error is
  greater than the tolerance, and otherwise it reports the first Greek in that order
  whose error is greater, with these numbers; the Greeks after it are not checked.
\<close>

theorem comparison_reports_first_excess:
  assumes "grid_point ev eng c today u q r v s = Some (out, s')"
    and "\<forall>msg. out \<noteq> Throws (QLError msg)"
    and "NPV eng \<lparr>spot = u, qRate = q, rRate = r, vol = v, evaluationDate = evaluationDate s\<rparr> c = Inr value"
    and "value > u * (1 / 100000)"
    and "calculated s = [] \<or> map fst (calculated s) = [''delta'', ''gamma'', ''rho'', ''theta'', ''vega'']"
    and "u \<noteq> 0"
  shows "tolerance = [(''delta'', 1 / 100000), (''gamma'', 1 / 100000), (''rho'', 1 / 100000),
       (''theta'', 1 / 100000), (''vega'', 1 / 100000)] \<and>
     (\<forall>x y. relativeError x y u = \<bar>x - y\<bar> / u) \<and>
     (\<exists>de ga th rh ve vp dp vm dm rp rm wp wm tm tp.
      delta eng \<lparr>spot = u, qRate = q, rRate = r, vol = v, evaluationDate = evaluationDate s\<rparr> c = Inr de \<and>
      gamma eng \<lparr>spot = u, qRate = q, rRate = r, vol = v, evaluationDate = evaluationDate s\<rparr> c = Inr ga \<and>
      theta eng \<lparr>spot = u, qRate = q, rRate = r, vol = v, evaluationDate = evaluationDate s\<rparr> c = Inr th \<and>
      rho eng \<lparr>spot = u, qRate = q, rRate = r, vol = v, evaluationDate = evaluationDate s\<rparr> c = Inr rh \<and>
      vega eng \<lparr>spot = u, qRate = q, rRate = r, vol = v, evaluationDate = evaluationDate s\<rparr> c = Inr ve \<and>
      NPV eng \<lparr>spot = u + u * (1 / 10000), qRate = q, rRate = r, vol = v, evaluationDate = evaluationDate s\<rparr> c = Inr vp \<and>
      delta eng \<lparr>spot = u + u * (1 / 10000), qRate = q, rRate = r, vol = v, evaluationDate = evaluationDate s\<rparr> c = Inr dp \<and>
      NPV eng \<lparr>spot = u - u * (1 / 10000), qRate = q, rRate = r, vol = v, evaluationDate = evaluationDate s\<rparr> c = Inr vm \<and>
      delta eng \<lparr>spot = u - u * (1 / 10000), qRate = q, rRate = r, vol = v, evaluationDate = evaluationDate s\<rparr> c = Inr dm \<and>
      NPV eng \<lparr>spot = u, qRate = q, rRate = r + r * (1 / 10000), vol = v, evaluationDate = evaluationDate s\<rparr> c = Inr rp \<and>
      NPV eng \<lparr>spot = u, qRate = q, rRate = r - r * (1 / 10000), vol = v, evaluationDate = evaluationDate s\<rparr> c = Inr rm \<and>
      NPV eng \<lparr>spot = u, qRate = q, rRate = r, vol = v + v * (1 / 10000), evaluationDate = evaluationDate s\<rparr> c = Inr wp \<and>
      NPV eng \<lparr>spot = u, qRate = q, rRate = r, vol = v - v * (1 / 10000), evaluationDate = evaluationDate s\<rparr> c = Inr wm \<and>
      NPV eng \<lparr>spot = u, qRate = q, rRate = r, vol = v, evaluationDate = today - 1\<rparr> c = Inr tm \<and>
      NPV eng \<lparr>spot = u, qRate = q, rRate = r, vol = v, evaluationDate = today + 1\<rparr> c = Inr tp \<and>
      calculated s' =
        [(''delta'', de), (''gamma'', ga), (''rho'', rh), (''theta'', th), (''vega'', ve)] \<and>
      expected s' =
        map_assign ''theta'' ((tp - tm) / yearFraction ev (today - 1) (today + 1))
          (map_assign ''vega'' ((wp - wm) / (2 * (v * (1 / 10000))))
            (map_assign ''rho'' ((rp - rm) / (2 * (r * (1 / 10000))))
              (map_assign ''gamma'' ((dp - dm) / (2 * (u * (1 / 10000))))
                (map_assign ''delta'' ((vp - vm) / (2 * (u * (1 / 10000)))) (expected s))))) \<and>
      spot s' = u \<and>
      out =
        (case find (\<lambda>g. relativeError (map_at (expected s') g) (map_at (calculated s') g) u
                       > map_at tolerance g) [''delta'', ''gamma'', ''rho'', ''theta'', ''vega''] of
           None \<Rightarrow> Returns ()
         | Some g \<Rightarrow> Throws (BoostFail \<lparr> f_exercise = European, f_optionType = optionType c,
            f_payoff = PlainVanilla, f_spot = u, f_strike = strike c,
            f_dividendYield = q, f_riskFreeRate = r, f_referenceDate = today,
            f_maturity = lastDate c, f_volatility = v, f_greekName = g,
            f_expected = map_at (expected s') g, f_calculated = map_at (calculated s') g,
            f_error = relativeError (map_at (expected s') g) (map_at (calculated s') g) u, f_tolerance = map_at tolerance g \<rparr>)))"
proof -
  from grid_point_no_error[OF assms(1,2)] assms(3) obtain de ga th rh ve where six:
    "NPV eng \<lparr>spot = u, qRate = q, rRate = r, vol = v, evaluationDate = evaluationDate s\<rparr> c = Inr value"
    "delta eng \<lparr>spot = u, qRate = q, rRate = r, vol = v, evaluationDate = evaluationDate s\<rparr> c = Inr de"
    "gamma eng \<lparr>spot = u, qRate = q, rRate = r, vol = v, evaluationDate = evaluationDate s\<rparr> c = Inr ga"
    "theta eng \<lparr>spot = u, qRate = q, rRate = r, vol = v, evaluationDate = evaluationDate s\<rparr> c = Inr th"
    "rho eng \<lparr>spot = u, qRate = q, rRate = r, vol = v, evaluationDate = evaluationDate s\<rparr> c = Inr rh"
    "vega eng \<lparr>spot = u, qRate = q, rRate = r, vol = v, evaluationDate = evaluationDate s\<rparr> c = Inr ve"
    by auto
  from grid_point_probed[OF assms(1-4)] obtain vp dp vm dm rp rm wp wm tm tp where
    n: "NPV eng \<lparr>spot = u + u * (1 / 10000), qRate = q, rRate = r, vol = v, evaluationDate = evaluationDate s\<rparr> c = Inr vp"
       "delta eng \<lparr>spot = u + u * (1 / 10000), qRate = q, rRate = r, vol = v, evaluationDate = evaluationDate s\<rparr> c = Inr dp"
       "NPV eng \<lparr>spot = u - u * (1 / 10000), qRate = q, rRate = r, vol = v, evaluationDate = evaluationDate s\<rparr> c = Inr vm"
       "delta eng \<lparr>spot = u - u * (1 / 10000), qRate = q, rRate = r, vol = v, evaluationDate = evaluationDate s\<rparr> c = Inr dm"
       "NPV eng \<lparr>spot = u, qRate = q, rRate = r + r * (1 / 10000), vol = v, evaluationDate = evaluationDate s\<rparr> c = Inr rp"
       "NPV eng \<lparr>spot = u, qRate = q, rRate = r - r * (1 / 10000), vol = v, evaluationDate = evaluationDate s\<rparr> c = Inr rm"
       "NPV eng \<lparr>spot = u, qRate = q, rRate = r, vol = v + v * (1 / 10000), evaluationDate = evaluationDate s\<rparr> c = Inr wp"
       "NPV eng \<lparr>spot = u, qRate = q, rRate = r, vol = v - v * (1 / 10000), evaluationDate = evaluationDate s\<rparr> c = Inr wm"
       "NPV eng \<lparr>spot = u, qRate = q, rRate = r, vol = v, evaluationDate = today - 1\<rparr> c = Inr tm"
       "NPV eng \<lparr>spot = u, qRate = q, rRate = r, vol = v, evaluationDate = today + 1\<rparr> c = Inr tp"
    and e: "expected s' =
        map_assign ''theta'' ((tp - tm) / yearFraction ev (today - 1) (today + 1))
          (map_assign ''vega'' ((wp - wm) / (2 * (v * (1 / 10000))))
            (map_assign ''rho'' ((rp - rm) / (2 * (r * (1 / 10000))))
              (map_assign ''gamma'' ((dp - dm) / (2 * (u * (1 / 10000))))
                (map_assign ''delta'' ((vp - vm) / (2 * (u * (1 / 10000)))) (expected s)))))"
    and t: "market.truncate s' = \<lparr>spot = u, qRate = q, rRate = r, vol = v, evaluationDate = today\<rparr>"
    and cmp: "compare c u q r today v s' = Some (out, s')"
    by blast
  from assms(5) have keys: "calculated s = [] \<or> map fst (calculated s) = greeks"
    by (simp add: greeks_def)
  have cal: "calculated s' =
        [(''delta'', de), (''gamma'', ga), (''rho'', rh), (''theta'', th), (''vega'', ve)]"
    using grid_point_calculated[OF assms(1) six] stored_greeks[OF keys] by simp
  have sp: "spot s' = u" using t by (simp add: market.truncate_def)
  have k: "map fst (calculated s') = [''delta'', ''gamma'', ''rho'', ''theta'', ''vega'']"
    unfolding cal by simp
  from cmp have "for_each [''delta'', ''gamma'', ''rho'', ''theta'', ''vega'']
      (check_greek c u q r today v) s' = Some (out, s')"
    unfolding compare_def k .
  then have o: "out =
        (case find (\<lambda>g. relativeError (map_at (expected s') g) (map_at (calculated s') g) u
                       > map_at tolerance g) [''delta'', ''gamma'', ''rho'', ''theta'', ''vega''] of
           None \<Rightarrow> Returns ()
         | Some g \<Rightarrow> Throws (BoostFail \<lparr> f_exercise = European, f_optionType = optionType c,
            f_payoff = PlainVanilla, f_spot = u, f_strike = strike c,
            f_dividendYield = q, f_riskFreeRate = r, f_referenceDate = today,
            f_maturity = lastDate c, f_volatility = v, f_greekName = g,
            f_expected = map_at (expected s') g, f_calculated = map_at (calculated s') g,
            f_error = relativeError (map_at (expected s') g) (map_at (calculated s') g) u, f_tolerance = map_at tolerance g \<rparr>))"
    unfolding for_each_check_find by (auto split: option.splits)
  have tol: "tolerance = [(''delta'', 1 / 100000), (''gamma'', 1 / 100000), (''rho'', 1 / 100000),
       (''theta'', 1 / 100000), (''vega'', 1 / 100000)]"
    by (simp add: tolerance_def)
  have rel: "\<forall>x y. relativeError x y u = \<bar>x - y\<bar> / u"
    using assms(6) by (simp add: relativeError_def)
  from six(2-6) n cal e sp o have "\<exists>de ga th rh ve vp dp vm dm rp rm wp wm tm tp.
      delta eng \<lparr>spot = u, qRate = q, rRate = r, vol = v, evaluationDate = evaluationDate s\<rparr> c = Inr de \<and>
      gamma eng \<lparr>spot = u, qRate = q, rRate = r, vol = v, evaluationDate = evaluationDate s\<rparr> c = Inr ga \<and>
      theta eng \<lparr>spot = u, qRate = q, rRate = r, vol = v, evaluationDate = evaluationDate s\<rparr> c = Inr th \<and>
      rho eng \<lparr>spot = u, qRate = q, rRate = r, vol = v, evaluationDate = evaluationDate s\<rparr> c = Inr rh \<and>
      vega eng \<lparr>spot = u, qRate = q, rRate = r, vol = v, evaluationDate = evaluationDate s\<rparr> c = Inr ve \<and>
      NPV eng \<lparr>spot = u + u * (1 / 10000), qRate = q, rRate = r, vol = v, evaluationDate = evaluationDate s\<rparr> c = Inr vp \<and>
      delta eng \<lparr>spot = u + u * (1 / 10000), qRate = q, rRate = r, vol = v, evaluationDate = evaluationDate s\<rparr> c = Inr dp \<and>
      NPV eng \<lparr>spot = u - u * (1 / 10000), qRate = q, rRate = r, vol = v, evaluationDate = evaluationDate s\<rparr> c = Inr vm \<and>
      delta eng \<lparr>spot = u - u * (1 / 10000), qRate = q, rRate = r, vol = v, evaluationDate = evaluationDate s\<rparr> c = Inr dm \<and>
      NPV eng \<lparr>spot = u, qRate = q, rRate = r + r * (1 / 10000), vol = v, evaluationDate = evaluationDate s\<rparr> c = Inr rp \<and>
      NPV eng \<lparr>spot = u, qRate = q, rRate = r - r * (1 / 10000), vol = v, evaluationDate = evaluationDate s\<rparr> c = Inr rm \<and>
      NPV eng \<lparr>spot = u, qRate = q, rRate = r, vol = v + v * (1 / 10000), evaluationDate = evaluationDate s\<rparr> c = Inr wp \<and>
      NPV eng \<lparr>spot = u, qRate = q, rRate = r, vol = v - v * (1 / 10000), evaluationDate = evaluationDate s\<rparr> c = Inr wm \<and>
      NPV eng \<lparr>spot = u, qRate = q, rRate = r, vol = v, evaluationDate = today - 1\<rparr> c = Inr tm \<and>
      NPV eng \<lparr>spot = u, qRate = q, rRate = r, vol = v, evaluationDate = today + 1\<rparr> c = Inr tp \<and>
      calculated s' =
        [(''delta'', de), (''gamma'', ga), (''rho'', rh), (''theta'', th), (''vega'', ve)] \<and>
      expected s' =
        map_assign ''theta'' ((tp - tm) / yearFraction ev (today - 1) (today + 1))
          (map_assign ''vega'' ((wp - wm) / (2 * (v * (1 / 10000))))
            (map_assign ''rho'' ((rp - rm) / (2 * (r * (1 / 10000))))
              (map_assign ''gamma'' ((dp - dm) / (2 * (u * (1 / 10000))))
                (map_assign ''delta'' ((vp - vm) / (2 * (u * (1 / 10000)))) (expected s))))) \<and>
      spot s' = u \<and>
      out =
        (case find (\<lambda>g. relativeError (map_at (expected s') g) (map_at (calculated s') g) u
                       > map_at tolerance g) [''delta'', ''gamma'', ''rho'', ''theta'', ''vega''] of
           None \<Rightarrow> Returns ()
         | Some g \<Rightarrow> Throws (BoostFail \<lparr> f_exercise = European, f_optionType = optionType c,
            f_payoff = PlainVanilla, f_spot = u, f_strike = strike c,
            f_dividendYield = q, f_riskFreeRate = r, f_referenceDate = today,
            f_maturity = lastDate c, f_volatility = v, f_greekName = g,
            f_expected = map_at (expected s') g, f_calculated = map_at (calculated s') g,
            f_error = relativeError (map_at (expected s') g) (map_at (calculated s') g) u, f_tolerance = map_at tolerance g \<rparr>))"
    by blast
  with tol rel show ?thesis by (intro conjI)
qed

theorem comparison_reports_witness:
  "(grid_point example_env (constant_engine 10 1) example_contract 1000 100 0 (1 / 100) (1 / 20) fresh_state = Some (Throws (BoostFail first_failure), aborted_state)) \<and>
   (\<forall>msg. Throws (BoostFail first_failure) \<noteq> Throws (QLError msg)) \<and>
   (NPV (constant_engine 10 1) \<lparr>spot = 100, qRate = 0, rRate = (1 / 100), vol = (1 / 20), evaluationDate = evaluationDate fresh_state\<rparr> example_contract = Inr (10 :: real)) \<and>
   ((10 :: real) > 100 * (1 / 100000)) \<and>
   (calculated fresh_state = [] \<or> map fst (calculated fresh_state) = [''delta'', ''gamma'', ''rho'', ''theta'', ''vega'']) \<and>
   ((100 :: real) \<noteq> 0) \<and>
   tolerance = [(''delta'', 1 / 100000), (''gamma'', 1 / 100000), (''rho'', 1 / 100000),
       (''theta'', 1 / 100000), (''vega'', 1 / 100000)] \<and>
     (\<forall>x y. relativeError x y 100 = \<bar>x - y\<bar> / 100) \<and>
     (\<exists>de ga th rh ve vp dp vm dm rp rm wp wm tm tp.
      delta (constant_engine 10 1) \<lparr>spot = 100, qRate = 0, rRate = (1 / 100), vol = (1 / 20), evaluationDate = evaluationDate fresh_state\<rparr> example_contract = Inr de \<and>
      gamma (constant_engine 10 1) \<lparr>spot = 100, qRate = 0, rRate = (1 / 100), vol = (1 / 20), evaluationDate = evaluationDate fresh_state\<rparr> example_contract = Inr ga \<and>
      theta (constant_engine 10 1) \<lparr>spot = 100, qRate = 0, rRate = (1 / 100), vol = (1 / 20), evaluationDate = evaluationDate fresh_state\<rparr> example_contract = Inr th \<and>
      rho (constant_engine 10 1) \<lparr>spot = 100, qRate = 0, rRate = (1 / 100), vol = (1 / 20), evaluationDate = evaluationDate fresh_state\<rparr> example_contract = Inr rh \<and>
      vega (constant_engine 10 1) \<lparr>spot = 100, qRate = 0, rRate = (1 / 100), vol = (1 / 20), evaluationDate = evaluationDate fresh_state\<rparr> example_contract = Inr ve \<and>
      NPV (constant_engine 10 1) \<lparr>spot = 100 + 100 * (1 / 10000), qRate = 0, rRate = (1 / 100), vol = (1 / 20), evaluationDate = evaluationDate fresh_state\<rparr> example_contract = Inr vp \<and>
      delta (constant_engine 10 1) \<lparr>spot = 100 + 100 * (1 / 10000), qRate = 0, rRate = (1 / 100), vol = (1 / 20), evaluationDate = evaluationDate fresh_state\<rparr> example_contract = Inr dp \<and>
      NPV (constant_engine 10 1) \<lparr>spot = 100 - 100 * (1 / 10000), qRate = 0, rRate = (1 / 100), vol = (1 / 20), evaluationDate = evaluationDate fresh_state\<rparr> example_contract = Inr vm \<and>
      delta (constant_engine 10 1) \<lparr>spot = 100 - 100 * (1 / 10000), qRate = 0, rRate = (1 / 100), vol = (1 / 20), evaluationDate = evaluationDate fresh_state\<rparr> example_contract = Inr dm \<and>
      NPV (constant_engine 10 1) \<lparr>spot = 100, qRate = 0, rRate = (1 / 100) + (1 / 100) * (1 / 10000), vol = (1 / 20), evaluationDate = evaluationDate fresh_state\<rparr> example_contract = Inr rp \<and>
      NPV (constant_engine 10 1) \<lparr>spot = 100, qRate = 0, rRate = (1 / 100) - (1 / 100) * (1 / 10000), vol = (1 / 20), evaluationDate = evaluationDate fresh_state\<rparr> example_contract = Inr rm \<and>
      NPV (constant_engine 10 1) \<lparr>spot = 100, qRate = 0, rRate = (1 / 100), vol = (1 / 20) + (1 / 20) * (1 / 10000), evaluationDate = evaluationDate fresh_state\<rparr> example_contract = Inr wp \<and>
      NPV (constant_engine 10 1) \<lparr>spot = 100, qRate = 0, rRate = (1 / 100), vol = (1 / 20) - (1 / 20) * (1 / 10000), evaluationDate = evaluationDate fresh_state\<rparr> example_contract = Inr wm \<and>
      NPV (constant_engine 10 1) \<lparr>spot = 100, qRate = 0, rRate = (1 / 100), vol = (1 / 20), evaluationDate = 1000 - 1\<rparr> example_contract = Inr tm \<and>
      NPV (constant_engine 10 1) \<lparr>spot = 100, qRate = 0, rRate = (1 / 100), vol = (1 / 20), evaluationDate = 1000 + 1\<rparr> example_contract = Inr tp \<and>
      calculated aborted_state =
        [(''delta'', de), (''gamma'', ga), (''rho'', rh), (''theta'', th), (''vega'', ve)] \<and>
      expected aborted_state =
        map_assign ''theta'' ((tp - tm) / yearFraction example_env (1000 - 1) (1000 + 1))
          (map_assign ''vega'' ((wp - wm) / (2 * ((1 / 20) * (1 / 10000))))
            (map_assign ''rho'' ((rp - rm) / (2 * ((1 / 100) * (1 / 10000))))
              (map_assign ''gamma'' ((dp - dm) / (2 * (100 * (1 / 10000))))
                (map_assign ''delta'' ((vp - vm) / (2 * (100 * (1 / 10000)))) (expected fresh_state))))) \<and>
      spot aborted_state = 100 \<and>
      Throws (BoostFail first_failure) =
        (case find (\<lambda>g. relativeError (map_at (expected aborted_state) g) (map_at (calculated aborted_state) g) 100
                       > map_at tolerance g) [''delta'', ''gamma'', ''rho'', ''theta'', ''vega''] of
           None \<Rightarrow> Returns ()
         | Some g \<Rightarrow> Throws (BoostFail \<lparr> f_exercise = European, f_optionType = optionType example_contract,
            f_payoff = PlainVanilla, f_spot = 100, f_strike = strike example_contract,
            f_dividendYield = 0, f_riskFreeRate = (1 / 100), f_referenceDate = 1000,
            f_maturity = lastDate example_contract, f_volatility = (1 / 20), f_greekName = g,
            f_expected = map_at (expected aborted_state) g, f_calculated = map_at (calculated aborted_state) g,
            f_error = relativeError (map_at (expected aborted_state) g) (map_at (calculated aborted_state) g) 100, f_tolerance = map_at tolerance g \<rparr>)))"
proof -
  have h: "grid_point example_env (constant_engine 10 1) example_contract 1000 100 0 (1 / 100) (1 / 20) fresh_state = Some (Throws (BoostFail first_failure), aborted_state)"
    "\<forall>msg. Throws (BoostFail first_failure) \<noteq> Throws (QLError msg)"
    "NPV (constant_engine 10 1) \<lparr>spot = 100, qRate = 0, rRate = (1 / 100), vol = (1 / 20), evaluationDate = evaluationDate fresh_state\<rparr> example_contract = Inr (10 :: real)"
    "(10 :: real) > 100 * (1 / 100000)"
    "calculated fresh_state = [] \<or> map fst (calculated fresh_state) = [''delta'', ''gamma'', ''rho'', ''theta'', ''vega'']"
    "(100 :: real) \<noteq> 0"
    using biased_grid_run by (simp_all add: constant_engine_def fresh_state_def)
  note concl = comparison_reports_first_excess[OF h]
  show ?thesis using h concl by (intro conjI) blast+
qed

theorem comparison_stops_counterexample:
  "grid_point example_env (constant_engine 10 1) example_contract 1000 100 0 (1 / 100) (1 / 20)
     fresh_state = Some (Throws (BoostFail first_failure), aborted_state) \<and>
   f_greekName first_failure = ''delta'' \<and>
   \<bar>map_at (expected aborted_state) ''gamma'' - map_at (calculated aborted_state) ''gamma''\<bar> / 100
     > 1 / 100000"
  using biased_grid_run
  by (simp add: first_failure_def aborted_state_def map_at_def)

section \<open>The sweep as one enumeration\<close>

lemma for_each_append:
  "for_each (xs @ ys) body = then_do (for_each xs body) (\<lambda>_. for_each ys body)"
proof (induction xs)
  case Nil
  show ?case by (simp add: ret_def then_do_def)
next
  case (Cons x xs)
  show ?case
    by (rule ext) (simp add: Cons then_do_def split: option.splits outcome.splits)
qed

lemma for_each_map: "for_each (map g xs) body = for_each xs (\<lambda>x. body (g x))"
  by (induction xs) simp_all

lemma for_each_product:
  "for_each xs (\<lambda>x. for_each ys (\<lambda>y. f x y)) = for_each (List.product xs ys) (\<lambda>(x, y). f x y)"
  by (induction xs) (simp_all add: for_each_append for_each_map)

lemma quadruples_nonempty:
  "List.product underlyings (List.product qRates (List.product rRates vols)) \<noteq> []"
  by (simp add: underlyings_def qRates_def rRates_def vols_def)

lemma for_each_never:
  assumes "xs \<noteq> []" shows "for_each xs (\<lambda>x s. None) s = None"
  using assms by (cases xs) (simp_all add: then_do_def)

lemma option_loop_enumeration:
  "option_loop ev eng (todaysDate ev) ty k len =
     for_each (List.product underlyings (List.product qRates (List.product rRates vols)))
       (\<lambda>(u, q, r, v). visit ev eng (ty, k, len, u, q, r, v))"
proof (rule ext)
  fix s
  show "option_loop ev eng (todaysDate ev) ty k len s =
     for_each (List.product underlyings (List.product qRates (List.product rRates vols)))
       (\<lambda>(u, q, r, v). visit ev eng (ty, k, len, u, q, r, v)) s"
  proof (cases "dividend_schedule ev (todaysDate ev) (todaysDate ev + len * dayCounterBase ev)")
    case None
    then have v: "(\<lambda>(u, q, r, v). visit ev eng (ty, k, len, u, q, r, v)) = (\<lambda>x s. None)"
      by (auto simp: visit_def fun_eq_iff)
    from None show ?thesis
      unfolding v
      by (simp add: option_loop_def Let_def for_each_never[OF quadruples_nonempty]
          del: for_each.simps)
  next
    case (Some p)
    obtain dates divs where p: "p = (dates, divs)" by (cases p)
    have v: "(\<lambda>(u, q, r, v). visit ev eng (ty, k, len, u, q, r, v)) =
        (\<lambda>(u, q, r, v). grid_point ev eng (the_contract ev ty k len dates divs)
           (todaysDate ev) u q r v)"
      using Some p by (auto simp: visit_def fun_eq_iff)
    show ?thesis
      unfolding v using Some p
      by (simp add: option_loop_def Let_def the_contract_def for_each_product
          del: for_each.simps)
  qed
qed

lemma sweep_enumeration:
  "testGreeks_body ev eng s = for_each grid_points (visit ev eng) (start ev s)"
proof -
  have "(\<lambda>(ty, k, len, u, q, r, v). visit ev eng (ty, k, len, u, q, r, v)) = visit ev eng"
    by (auto simp: fun_eq_iff)
  then show ?thesis
    unfolding testGreeks_body_start option_loop_enumeration grid_points_def
    by (simp add: for_each_product del: for_each.simps)
qed

section \<open>A violation ends the sweep\<close>

lemma grid_point_reports:
  assumes "grid_point ev eng c today u q r v s = Some (out, s')"
    and "\<forall>msg. out \<noteq> Throws (QLError msg)"
    and "NPV eng \<lparr>spot = u, qRate = q, rRate = r, vol = v, evaluationDate = evaluationDate s\<rparr> c = Inr value"
    and "value > u * (1 / 100000)"
    and "calculated s = [] \<or> map fst (calculated s) = greeks"
  shows "out =
        (case find (\<lambda>g. relativeError (map_at (expected s') g) (map_at (calculated s') g) u
                       > map_at tolerance g) greeks of
           None \<Rightarrow> Returns ()
         | Some g \<Rightarrow> Throws (BoostFail \<lparr> f_exercise = European, f_optionType = optionType c,
            f_payoff = PlainVanilla, f_spot = u, f_strike = strike c,
            f_dividendYield = q, f_riskFreeRate = r, f_referenceDate = today,
            f_maturity = lastDate c, f_volatility = v, f_greekName = g,
            f_expected = map_at (expected s') g, f_calculated = map_at (calculated s') g,
            f_error = relativeError (map_at (expected s') g) (map_at (calculated s') g) u, f_tolerance = map_at tolerance g \<rparr>))"
proof -
  from grid_point_no_error[OF assms(1,2)] assms(3) obtain de ga th rh ve where six:
    "NPV eng \<lparr>spot = u, qRate = q, rRate = r, vol = v, evaluationDate = evaluationDate s\<rparr> c = Inr value"
    "delta eng \<lparr>spot = u, qRate = q, rRate = r, vol = v, evaluationDate = evaluationDate s\<rparr> c = Inr de"
    "gamma eng \<lparr>spot = u, qRate = q, rRate = r, vol = v, evaluationDate = evaluationDate s\<rparr> c = Inr ga"
    "theta eng \<lparr>spot = u, qRate = q, rRate = r, vol = v, evaluationDate = evaluationDate s\<rparr> c = Inr th"
    "rho eng \<lparr>spot = u, qRate = q, rRate = r, vol = v, evaluationDate = evaluationDate s\<rparr> c = Inr rh"
    "vega eng \<lparr>spot = u, qRate = q, rRate = r, vol = v, evaluationDate = evaluationDate s\<rparr> c = Inr ve"
    by auto
  from grid_point_probed[OF assms(1-4)]
  have cmp: "compare c u q r today v s' = Some (out, s')"
    by blast
  have k: "map fst (calculated s') = greeks"
    using grid_point_calculated[OF assms(1) six] stored_greeks[OF assms(5)]
    by (simp add: greeks_def)
  from cmp have "for_each greeks (check_greek c u q r today v) s' = Some (out, s')"
    unfolding compare_def k .
  then show ?thesis
    unfolding for_each_check_find by (auto split: option.splits)
qed

lemma visit_keeps_keys:
  assumes "visit ev eng p s = Some (Returns (), s')"
    and "calculated s = [] \<or> map fst (calculated s) = greeks"
  shows "calculated s' = [] \<or> map fst (calculated s') = greeks"
proof -
  obtain ty k len u q r v where p: "p = (ty, k, len, u, q, r, v)" by (cases p)
  from assms(1) obtain dates divs where
    run: "grid_point ev eng (the_contract ev ty k len dates divs) (todaysDate ev) u q r v s
       = Some (Returns (), s')"
    unfolding p visit_def by (auto split: option.splits)
  have ok: "\<forall>msg. Returns () \<noteq> Throws (QLError msg)" by simp
  from grid_point_no_error[OF run ok] obtain "value" de ga th rh ve where six:
    "NPV eng \<lparr>spot = u, qRate = q, rRate = r, vol = v, evaluationDate = evaluationDate s\<rparr> (the_contract ev ty k len dates divs) = Inr value"
    "delta eng \<lparr>spot = u, qRate = q, rRate = r, vol = v, evaluationDate = evaluationDate s\<rparr> (the_contract ev ty k len dates divs) = Inr de"
    "gamma eng \<lparr>spot = u, qRate = q, rRate = r, vol = v, evaluationDate = evaluationDate s\<rparr> (the_contract ev ty k len dates divs) = Inr ga"
    "theta eng \<lparr>spot = u, qRate = q, rRate = r, vol = v, evaluationDate = evaluationDate s\<rparr> (the_contract ev ty k len dates divs) = Inr th"
    "rho eng \<lparr>spot = u, qRate = q, rRate = r, vol = v, evaluationDate = evaluationDate s\<rparr> (the_contract ev ty k len dates divs) = Inr rh"
    "vega eng \<lparr>spot = u, qRate = q, rRate = r, vol = v, evaluationDate = evaluationDate s\<rparr> (the_contract ev ty k len dates divs) = Inr ve"
    by blast
  from grid_point_calculated[OF run six] stored_greeks[OF assms(2)]
  show ?thesis by (simp add: greeks_def)
qed

lemma for_each_invariant:
  assumes "\<And>x s s'. I s \<Longrightarrow> body x s = Some (Returns (), s') \<Longrightarrow> I s'"
  shows "I s \<Longrightarrow> for_each xs body s = Some (Returns (), s') \<Longrightarrow> I s'"
proof (induction xs arbitrary: s)
  case Nil
  then show ?case by (simp add: ret_def)
next
  case (Cons x xs)
  from Cons.prems(2) have "then_do (body x) (\<lambda>_. for_each xs body) s = Some (Returns (), s')"
    by simp
  then show ?case
  proof (cases rule: then_do_cases)
    case (thrown e)
    then show ?thesis by simp
  next
    case (continued y s1)
    from assms[OF Cons.prems(1)] continued(1) have "I s1" by simp
    from Cons.IH[OF this continued(2)] show ?thesis .
  qed
qed

lemma first_grid_point:
  "\<exists>rest. grid_points = (Call, 50, 1, 100, 0, 1 / 100, 1 / 20) # rest"
  by (simp add: grid_points_def types_def strikes_def lengths_def underlyings_def
      qRates_def rRates_def vols_def)

text \<open>
  C2, as the code has it. \<^verbatim>\<open>REPORT_FAILURE\<close> reports through \<^verbatim>\<open>BOOST_FAIL\<close>, which
  raises. Take any grid point of the sweep such that the grid points before it have all
  returned; if it is not skipped, its pricing calls return and a Greek's error exceeds
  its tolerance, then the whole sweep ends there: its outcome is the report of the first
  Greek in key order (delta, gamma, rho, theta, vega) whose error exceeds the tolerance,
  a structured record (option type, strike, spot, rates, dates, volatility, Greek name,
  expected, calculated, error, tolerance), and its final state is the state of that grid
  point. The Greeks after the reported one and the grid points after this one are not
  examined, whatever they are.
\<close>

theorem violation_ends_sweep:
  assumes "grid_points = before @ (ty, k, len, u, q, r, v) # after"
    and "for_each before (visit ev eng) (start ev s) = Some (Returns (), s0)"
    and "dividend_schedule ev (todaysDate ev) (todaysDate ev + len * dayCounterBase ev) = Some (dates, divs)"
    and "grid_point ev eng (the_contract ev ty k len dates divs) (todaysDate ev) u q r v s0 = Some (out, s')"
    and "\<forall>msg. out \<noteq> Throws (QLError msg)"
    and "NPV eng \<lparr>spot = u, qRate = q, rRate = r, vol = v, evaluationDate = evaluationDate s0\<rparr> (the_contract ev ty k len dates divs) = Inr value"
    and "value > u * (1 / 100000)"
    and "find (\<lambda>g. relativeError (map_at (expected s') g) (map_at (calculated s') g) u
                 > map_at tolerance g) [''delta'', ''gamma'', ''rho'', ''theta'', ''vega''] = Some g"
  shows "testGreeks_body ev eng s = Some (Throws (BoostFail \<lparr> f_exercise = European, f_optionType = ty,
            f_payoff = PlainVanilla, f_spot = u, f_strike = k,
            f_dividendYield = q, f_riskFreeRate = r, f_referenceDate = todaysDate ev,
            f_maturity = todaysDate ev + len * dayCounterBase ev, f_volatility = v, f_greekName = g,
            f_expected = map_at (expected s') g, f_calculated = map_at (calculated s') g,
            f_error = relativeError (map_at (expected s') g) (map_at (calculated s') g) u, f_tolerance = map_at tolerance g \<rparr>), s')"
proof -
  let ?c = "the_contract ev ty k len dates divs"
  have st: "calculated (start ev s) = [] \<or> map fst (calculated (start ev s)) = greeks"
    by (simp add: start_def)
  have keys: "calculated s0 = [] \<or> map fst (calculated s0) = greeks"
    by (rule for_each_invariant[where I = "\<lambda>s. calculated s = [] \<or> map fst (calculated s) = greeks",
          OF visit_keeps_keys st assms(2)])
  from assms(8) have f: "find (\<lambda>g. relativeError (map_at (expected s') g) (map_at (calculated s') g) u
                 > map_at tolerance g) greeks = Some g"
    by (simp only: greeks_def)
  from grid_point_reports[OF assms(4,5,6,7) keys]
  have out: "out = Throws (BoostFail \<lparr> f_exercise = European, f_optionType = ty,
            f_payoff = PlainVanilla, f_spot = u, f_strike = k,
            f_dividendYield = q, f_riskFreeRate = r, f_referenceDate = todaysDate ev,
            f_maturity = todaysDate ev + len * dayCounterBase ev, f_volatility = v, f_greekName = g,
            f_expected = map_at (expected s') g, f_calculated = map_at (calculated s') g,
            f_error = relativeError (map_at (expected s') g) (map_at (calculated s') g) u, f_tolerance = map_at tolerance g \<rparr>)"
    unfolding f by (simp add: the_contract_def)
  have "visit ev eng (ty, k, len, u, q, r, v) s0 = Some (out, s')"
    using assms(3,4) by (simp add: visit_def)
  with out have here: "visit ev eng (ty, k, len, u, q, r, v) s0 =
      Some (Throws (BoostFail \<lparr> f_exercise = European, f_optionType = ty,
            f_payoff = PlainVanilla, f_spot = u, f_strike = k,
            f_dividendYield = q, f_riskFreeRate = r, f_referenceDate = todaysDate ev,
            f_maturity = todaysDate ev + len * dayCounterBase ev, f_volatility = v, f_greekName = g,
            f_expected = map_at (expected s') g, f_calculated = map_at (calculated s') g,
            f_error = relativeError (map_at (expected s') g) (map_at (calculated s') g) u, f_tolerance = map_at tolerance g \<rparr>), s')"
    by simp
  from for_each_stops[OF assms(2) here, of after]
  show ?thesis
    unfolding sweep_enumeration assms(1) .
qed

theorem violation_ends_sweep_witness:
  "\<exists>after.
     (grid_points = [] @ (Call, 50, 1, 100, 0, (1 / 100), (1 / 20)) # after) \<and>
     (for_each [] (visit example_env (constant_engine 10 1)) (start example_env fresh_state) = Some (Returns (), fresh_state)) \<and>
     (dividend_schedule example_env (todaysDate example_env) (todaysDate example_env + 1 * dayCounterBase example_env) = Some ([1090, 1270], [5, 5])) \<and>
     (grid_point example_env (constant_engine 10 1) (the_contract example_env Call 50 1 [1090, 1270] [5, 5]) (todaysDate example_env) 100 0 (1 / 100) (1 / 20) fresh_state = Some (Throws (BoostFail first_failure), aborted_state)) \<and>
     (\<forall>msg. Throws (BoostFail first_failure) \<noteq> Throws (QLError msg)) \<and>
     (NPV (constant_engine 10 1) \<lparr>spot = 100, qRate = 0, rRate = (1 / 100), vol = (1 / 20), evaluationDate = evaluationDate fresh_state\<rparr> (the_contract example_env Call 50 1 [1090, 1270] [5, 5]) = Inr (10 :: real)) \<and>
     ((10 :: real) > 100 * (1 / 100000)) \<and>
     (find (\<lambda>g. relativeError (map_at (expected aborted_state) g) (map_at (calculated aborted_state) g) 100
                 > map_at tolerance g) [''delta'', ''gamma'', ''rho'', ''theta'', ''vega''] = Some ''delta'') \<and>
     testGreeks_body example_env (constant_engine 10 1) fresh_state = Some (Throws (BoostFail \<lparr> f_exercise = European, f_optionType = Call,
            f_payoff = PlainVanilla, f_spot = 100, f_strike = 50,
            f_dividendYield = 0, f_riskFreeRate = (1 / 100), f_referenceDate = todaysDate example_env,
            f_maturity = todaysDate example_env + 1 * dayCounterBase example_env, f_volatility = (1 / 20), f_greekName = ''delta'',
            f_expected = map_at (expected aborted_state) ''delta'', f_calculated = map_at (calculated aborted_state) ''delta'',
            f_error = relativeError (map_at (expected aborted_state) ''delta'') (map_at (calculated aborted_state) ''delta'') 100, f_tolerance = map_at tolerance ''delta'' \<rparr>), aborted_state)"
proof -
  from first_grid_point obtain after where
    "grid_points = (Call, 50, 1, 100, 0, 1 / 100, 1 / 20) # after" by blast
  then have h1: "grid_points = [] @ (Call, 50, 1, 100, 0, (1 / 100), (1 / 20)) # after" by simp
  have t: "todaysDate example_env = 1000" and b: "dayCounterBase example_env = 360"
    by (simp_all add: example_env_def)
  have c: "the_contract example_env Call 50 1 [1090, 1270] [5, 5] = example_contract"
    by (simp add: the_contract_def example_contract_def t b)
  have h2: "for_each [] (visit example_env (constant_engine 10 1)) (start example_env fresh_state) = Some (Returns (), fresh_state)"
    by (simp add: ret_def start_fresh)
  have h3: "dividend_schedule example_env (todaysDate example_env) (todaysDate example_env + 1 * dayCounterBase example_env) = Some ([1090, 1270], [5, 5])"
    by (simp add: t b example_schedule)
  have h4: "grid_point example_env (constant_engine 10 1) (the_contract example_env Call 50 1 [1090, 1270] [5, 5]) (todaysDate example_env) 100 0 (1 / 100) (1 / 20) fresh_state = Some (Throws (BoostFail first_failure), aborted_state)"
    unfolding c t by (rule biased_grid_run)
  have h5: "\<forall>msg. Throws (BoostFail first_failure) \<noteq> Throws (QLError msg)" by simp
  have h6: "NPV (constant_engine 10 1) \<lparr>spot = 100, qRate = 0, rRate = (1 / 100), vol = (1 / 20), evaluationDate = evaluationDate fresh_state\<rparr> (the_contract example_env Call 50 1 [1090, 1270] [5, 5]) = Inr (10 :: real)"
    by (simp add: constant_engine_def)
  have h7: "(10 :: real) > 100 * (1 / 100000)" by simp
  have h8: "find (\<lambda>g. relativeError (map_at (expected aborted_state) g) (map_at (calculated aborted_state) g) 100
                 > map_at tolerance g) [''delta'', ''gamma'', ''rho'', ''theta'', ''vega''] = Some ''delta''"
    by (simp add: aborted_state_def map_at_def relativeError_def tolerance_def)
  note concl = violation_ends_sweep[OF h1 h2 h3 h4 h5 h6 h7 h8]
  show ?thesis
    by (rule exI[of _ after]) (use h1 h2 h3 h4 h5 h6 h7 h8 concl in blast)
qed

theorem sweep_aborts_counterexample:
  "testGreeks_body example_env (constant_engine 10 1) fresh_state
     = Some (Throws (BoostFail first_failure), aborted_state) \<and>
   f_greekName first_failure = ''delta'' \<and>
   length (requests aborted_state) = 16 \<and>
   relativeError (map_at (expected aborted_state) ''gamma'')
       (map_at (calculated aborted_state) ''gamma'') 100 > map_at tolerance ''gamma''"
  using biased_sweep_run
  by (simp add: first_failure_def aborted_state_def relativeError_def map_at_def tolerance_def)

section \<open>Restoring the market, whatever the arithmetic\<close>

text \<open>
  The perturbations over an arbitrary arithmetic restore the market, and under exact
  arithmetic they are the perturbations of the test: what \<open>perturb_spot\<close> and its
  companions do to the quotes and to \<open>expected\<close> is what their counterparts do.
\<close>

lemmas fp_defs = then_do_def fp_spot_setValue_def fp_rRate_setValue_def fp_vol_setValue_def
  fp_setEvaluationDate_def fp_set_expected_def fp_ask_def

lemma fp_perturb_spot_market:
  assumes "fp_perturb_spot ar eng c (fp_spot s) s = Some (Returns x, s')"
  shows "fp_market.truncate s' = fp_market.truncate s"
  using assms
  by (auto simp: fp_perturb_spot_def fp_defs Let_def fp_market.truncate_def split: sum.splits)

lemma fp_perturb_rate_market:
  assumes "fp_perturb_rate ar eng c (fp_rRate s) s = Some (Returns x, s')"
  shows "fp_market.truncate s' = fp_market.truncate s"
  using assms
  by (auto simp: fp_perturb_rate_def fp_defs Let_def fp_market.truncate_def split: sum.splits)

lemma fp_perturb_vol_market:
  assumes "fp_perturb_vol ar eng c (fp_vol s) s = Some (Returns x, s')"
  shows "fp_market.truncate s' = fp_market.truncate s"
  using assms
  by (auto simp: fp_perturb_vol_def fp_defs Let_def fp_market.truncate_def split: sum.splits)

lemma fp_perturb_date_market:
  assumes "fp_perturb_date yf ar eng c (fp_evaluationDate s) s = Some (Returns x, s')"
  shows "fp_market.truncate s' = fp_market.truncate s"
  using assms
  by (auto simp: fp_perturb_date_def fp_defs Let_def fp_market.truncate_def split: sum.splits)

lemma fp_assign_real: "fp_assign k v m = map_assign k v m"
  by (induction m) auto

lemma as_market_state: "as_market (fp_market.truncate (as_fp_state s)) = market.truncate s"
  by (simp add: as_market_def as_fp_state_def fp_market.truncate_def market.truncate_def)

lemma perturb_spot_exact:
  assumes "perturb_spot eng c u s = Some (out, s')"
  shows "fp_perturb_spot exact (as_fp_engine eng) c u (as_fp_state s) = Some (out, as_fp_state s')"
  using assms
  by (auto simp: perturb_spot_def fp_perturb_spot_def prim_defs fp_defs Let_def exact_def
      as_fp_engine_def as_market_def as_fp_state_def fp_market.truncate_def
      market.truncate_def fp_assign_real split: sum.splits)

lemma perturb_rate_exact:
  assumes "perturb_rate eng c r s = Some (out, s')"
  shows "fp_perturb_rate exact (as_fp_engine eng) c r (as_fp_state s) = Some (out, as_fp_state s')"
  using assms
  by (auto simp: perturb_rate_def fp_perturb_rate_def prim_defs fp_defs Let_def exact_def
      as_fp_engine_def as_market_def as_fp_state_def fp_market.truncate_def
      market.truncate_def fp_assign_real split: sum.splits)

lemma perturb_vol_exact:
  assumes "perturb_vol eng c v s = Some (out, s')"
  shows "fp_perturb_vol exact (as_fp_engine eng) c v (as_fp_state s) = Some (out, as_fp_state s')"
  using assms
  by (auto simp: perturb_vol_def fp_perturb_vol_def prim_defs fp_defs Let_def exact_def
      as_fp_engine_def as_market_def as_fp_state_def fp_market.truncate_def
      market.truncate_def fp_assign_real split: sum.splits)

lemma perturb_date_exact:
  assumes "perturb_date ev eng c today s = Some (out, s')"
  shows "fp_perturb_date (yearFraction ev) exact (as_fp_engine eng) c today (as_fp_state s)
     = Some (out, as_fp_state s')"
  using assms
  by (auto simp: perturb_date_def fp_perturb_date_def prim_defs fp_defs Let_def exact_def
      as_fp_engine_def as_market_def as_fp_state_def fp_market.truncate_def
      market.truncate_def fp_assign_real split: sum.splits)

lemma rounding_spot_run:
  "fp_perturb_spot rounding spot_engine example_contract (100005 / 1000) fine_state =
     Some (Returns (), fine_state\<lparr>fp_expected := [(''delta'', 0), (''gamma'', 0)]\<rparr>)"
  by (simp add: fp_perturb_spot_def fp_defs Let_def rounding_def two_decimals_def
      spot_engine_def fine_state_def fp_market.truncate_def)

lemma rounding_drifts:
  "ar_plus rounding (ar_minus rounding (100005 / 1000)
       (ar_times rounding (100005 / 1000) (ar_1em4 rounding)))
     (ar_times rounding (100005 / 1000) (ar_1em4 rounding)) = 100"
  by (simp add: rounding_def two_decimals_def)


text \<open>
  C6. Whatever the arithmetic of the numbers is (nothing is assumed of addition,
  subtraction, multiplication and division, so they may round), each of the four
  perturbations, started with the stored value of the field it bumps and returning
  normally, leaves spot, yield, rate, volatility and evaluation date exactly as they
  were: the stored value itself is written back, nothing is computed to restore it. So
  the engine prices the market after the perturbation as it priced the market before it.
\<close>

theorem probes_round_trip_any_arithmetic:
  assumes "probe = fp_perturb_spot ar eng c (fp_spot s) \<or>
      probe = fp_perturb_rate ar eng c (fp_rRate s) \<or>
      probe = fp_perturb_vol ar eng c (fp_vol s) \<or>
      probe = fp_perturb_date yf ar eng c (fp_evaluationDate s)"
    and "probe s = Some (Returns (), s')"
  shows "fp_market.truncate s' = fp_market.truncate s \<and>
     fp_NPV eng (fp_market.truncate s') c = fp_NPV eng (fp_market.truncate s) c"
proof -
  have "fp_market.truncate s' = fp_market.truncate s"
    using assms
    by (auto dest: fp_perturb_spot_market fp_perturb_rate_market fp_perturb_vol_market
        fp_perturb_date_market)
  then show ?thesis by simp
qed

theorem probes_round_trip_any_arithmetic_witness:
  "(fp_perturb_spot rounding spot_engine example_contract (fp_spot fine_state)
        = fp_perturb_spot rounding spot_engine example_contract (fp_spot fine_state) \<or>
      fp_perturb_spot rounding spot_engine example_contract (fp_spot fine_state)
        = fp_perturb_rate rounding spot_engine example_contract (fp_rRate fine_state) \<or>
      fp_perturb_spot rounding spot_engine example_contract (fp_spot fine_state)
        = fp_perturb_vol rounding spot_engine example_contract (fp_vol fine_state) \<or>
      fp_perturb_spot rounding spot_engine example_contract (fp_spot fine_state)
        = fp_perturb_date (\<lambda>d1 d2. real_of_int (d2 - d1) / 360) rounding spot_engine
            example_contract (fp_evaluationDate fine_state)) \<and>
   fp_perturb_spot rounding spot_engine example_contract (fp_spot fine_state) fine_state
     = Some (Returns (), (fine_state\<lparr>fp_expected := [(''delta'', 0), (''gamma'', 0)]\<rparr>)) \<and>
   fp_market.truncate (fine_state\<lparr>fp_expected := [(''delta'', 0), (''gamma'', 0)]\<rparr>)
     = fp_market.truncate fine_state \<and>
   fp_NPV spot_engine (fp_market.truncate (fine_state\<lparr>fp_expected := [(''delta'', 0), (''gamma'', 0)]\<rparr>)) example_contract
     = fp_NPV spot_engine (fp_market.truncate fine_state) example_contract \<and>
   fp_spot (fine_state\<lparr>fp_expected := [(''delta'', 0), (''gamma'', 0)]\<rparr>) = 100005 / 1000 \<and>
   ar_plus rounding (ar_minus rounding (100005 / 1000)
       (ar_times rounding (100005 / 1000) (ar_1em4 rounding)))
     (ar_times rounding (100005 / 1000) (ar_1em4 rounding)) = 100"
proof -
  have u: "fp_spot fine_state = 100005 / 1000" by (simp add: fine_state_def)
  have which: "fp_perturb_spot rounding spot_engine example_contract (fp_spot fine_state)
        = fp_perturb_spot rounding spot_engine example_contract (fp_spot fine_state) \<or>
      fp_perturb_spot rounding spot_engine example_contract (fp_spot fine_state)
        = fp_perturb_rate rounding spot_engine example_contract (fp_rRate fine_state) \<or>
      fp_perturb_spot rounding spot_engine example_contract (fp_spot fine_state)
        = fp_perturb_vol rounding spot_engine example_contract (fp_vol fine_state) \<or>
      fp_perturb_spot rounding spot_engine example_contract (fp_spot fine_state)
        = fp_perturb_date (\<lambda>d1 d2. real_of_int (d2 - d1) / 360) rounding spot_engine
            example_contract (fp_evaluationDate fine_state)"
    by simp
  have run: "fp_perturb_spot rounding spot_engine example_contract (fp_spot fine_state) fine_state
     = Some (Returns (), (fine_state\<lparr>fp_expected := [(''delta'', 0), (''gamma'', 0)]\<rparr>))"
    unfolding u by (rule rounding_spot_run)
  note concl = probes_round_trip_any_arithmetic[OF which run]
  have sp: "fp_spot (fine_state\<lparr>fp_expected := [(''delta'', 0), (''gamma'', 0)]\<rparr>) = 100005 / 1000"
    by (simp add: fine_state_def)
  show ?thesis using which run concl sp rounding_drifts by (intro conjI) blast+
qed

end
